theory Spec2Isabelle
  imports Complex_Main "HOL-Library.Word"
begin

section \<open>JavaScript values\<close>

text \<open>
  A JavaScript string is a sequence of UTF-16 code units; \<open>length\<close>, \<open>trim\<close>,
  \<open>startsWith\<close> and zod's \<open>min\<close>/\<open>max\<close> all count code units. The literals of the
  source are ASCII (where they are not, the text they stand in is produced by a
  function of the runtime); \<open>js\<close> turns an ASCII literal into its code units.
\<close>

type_synonym code_unit = "16 word"
type_synonym jsstring = "code_unit list"

definition js :: "string \<Rightarrow> jsstring" where
  "js s = map (\<lambda>c. of_char c) s"

text \<open>
  A JavaScript number is an IEEE double: not-a-number, an infinity, negative zero, or a
  finite value (\<open>Finite 0\<close> is positive zero). The rounding of the arithmetic operations
  is not modelled: they are functions of the runtime (see \<open>js_runtime\<close>).
\<close>

datatype number = NaN | PosInf | NegInf | NegZero | Finite real

definition isNaN :: "number \<Rightarrow> bool" where
  "isNaN n = (n = NaN)"

text \<open>\<open>n === 0\<close>: both zeros are strictly equal to \<open>0\<close>.\<close>

definition strict_eq_zero :: "number \<Rightarrow> bool" where
  "strict_eq_zero n = (n = Finite 0 \<or> n = NegZero)"

text \<open>\<open>a < b\<close> on numbers: false when either side is not a number; the zeros are equal.\<close>

fun number_less :: "number \<Rightarrow> number \<Rightarrow> bool" where
  "number_less NaN _ = False"
| "number_less _ NaN = False"
| "number_less PosInf _ = False"
| "number_less _ NegInf = False"
| "number_less NegInf _ = True"
| "number_less _ PosInf = True"
| "number_less NegZero NegZero = False"
| "number_less NegZero (Finite y) = (0 < y)"
| "number_less (Finite x) NegZero = (x < 0)"
| "number_less (Finite x) (Finite y) = (x < y)"

datatype val =
    VUndefined
  | VNull
  | VBool bool
  | VNum number
  | VStr jsstring
  | VDate real
  | VArr "val list"
  | VObj "(jsstring \<times> val) list"

text \<open>
  A thrown value. Everything the source throws is an \<open>Error\<close>; the runtime and the
  services throw errors of other classes (\<open>TypeError\<close>, \<open>SyntaxError\<close>), so the value
  keeps the error's name and its message.
\<close>

datatype exn = Exn jsstring jsstring

definition new_Error :: "jsstring \<Rightarrow> exn" where
  "new_Error msg = Exn (js ''Error'') msg"

text \<open>\<open>Error.prototype.toString\<close>, which a template literal \<open>${error}\<close> calls.\<close>

fun exn_toString :: "exn \<Rightarrow> jsstring" where
  "exn_toString (Exn name msg) =
     (if msg = [] then name else if name = [] then msg else name @ js '': '' @ msg)"

datatype 'a outcome = Returned 'a | Thrown exn

text \<open>
  The builtins of the runtime that the source calls and this development does not model
  in detail: each is a parameter, so every theorem holds for whatever they compute.
\<close>

record js_runtime =
  rt_parseFloat :: "jsstring \<Rightarrow> number"
  rt_add :: "number \<Rightarrow> number \<Rightarrow> number"
  rt_sub :: "number \<Rightarrow> number \<Rightarrow> number"
  rt_mul :: "number \<Rightarrow> number \<Rightarrow> number"
  rt_div :: "number \<Rightarrow> number \<Rightarrow> number"
  rt_number_toString :: "number \<Rightarrow> jsstring"
  rt_date_toString :: "real \<Rightarrow> jsstring"
  rt_JSON_stringify :: "val \<Rightarrow> jsstring"
  rt_JSON_stringify_pretty :: "val \<Rightarrow> jsstring"
  rt_JSON_parse :: "jsstring \<Rightarrow> val outcome"
  rt_encodeURIComponent :: "val \<Rightarrow> jsstring outcome"
  rt_atob :: "val \<Rightarrow> jsstring outcome"
  rt_new_Headers :: "val \<Rightarrow> val outcome"
  rt_escape_inner_quotes :: "jsstring \<Rightarrow> jsstring"
  rt_weather_url :: "val \<Rightarrow> jsstring outcome"
  rt_weather_info :: "val \<Rightarrow> val \<Rightarrow> jsstring outcome"
  rt_pokemon_url :: "val \<Rightarrow> jsstring outcome"
  rt_pokemon_info :: "val \<Rightarrow> jsstring outcome"
  rt_countries_info :: "val \<Rightarrow> jsstring outcome"

section \<open>The calculator worker (worker.js)\<close>

record URL =
  pathname :: jsstring
  searchParams :: "(jsstring \<times> jsstring) list"

record Response =
  body :: jsstring
  status :: nat
  statusText :: jsstring
  headers :: "(jsstring \<times> jsstring) list"

text \<open>\<open>url.searchParams.get(name)\<close>: the first value of the name, or \<open>null\<close>.\<close>

definition searchParams_get :: "URL \<Rightarrow> jsstring \<Rightarrow> jsstring option" where
  "searchParams_get url name = map_of (searchParams url) name"

text \<open>\<open>parseFloat\<close> converts its argument to a string first: \<open>null\<close> reads as "null".\<close>

definition parseFloat :: "js_runtime \<Rightarrow> jsstring option \<Rightarrow> number" where
  "parseFloat rt v = rt_parseFloat rt (case v of None \<Rightarrow> js ''null'' | Some s \<Rightarrow> s)"

definition json_result :: "js_runtime \<Rightarrow> number \<Rightarrow> Response" where
  "json_result rt result =
     \<lparr> body = rt_JSON_stringify rt (VObj [(js ''result'', VNum result)]),
       status = 200,
       statusText = [],
       headers = [(js ''Content-Type'', js ''application/json'')] \<rparr>"

definition text_response :: "jsstring \<Rightarrow> nat \<Rightarrow> Response" where
  "text_response b s = \<lparr> body = b, status = s, statusText = [], headers = [] \<rparr>"

definition worker_fetch :: "js_runtime \<Rightarrow> URL \<Rightarrow> Response" where
  "worker_fetch rt url =
     (if pathname url \<noteq> js ''/calc'' then text_response (js ''Not Found'') 404
      else
        let op = searchParams_get url (js ''op'');
            a = parseFloat rt (searchParams_get url (js ''a''));
            b = parseFloat rt (searchParams_get url (js ''b''))
        in
          if isNaN a \<or> isNaN b then text_response (js ''Invalid numbers'') 400
          else if op = Some (js ''add'') then json_result rt (rt_add rt a b)
          else if op = Some (js ''sub'') then json_result rt (rt_sub rt a b)
          else if op = Some (js ''mul'') then json_result rt (rt_mul rt a b)
          else if op = Some (js ''div'') then
            (if strict_eq_zero b then text_response (js ''Cannot divide by zero'') 400
             else json_result rt (rt_div rt a b))
          else text_response (js ''Invalid operation'') 400)"

section \<open>Helpers of the language\<close>

text \<open>
  Reading a property. \<open>member\<close> is the read on a value known to be neither \<open>undefined\<close>
  nor \<open>null\<close> (an absent property reads as \<open>undefined\<close>); \<open>get\<close> is the read that
  throws a \<open>TypeError\<close> on \<open>undefined\<close> and \<open>null\<close>. An object lists each of its keys once.
\<close>

definition member :: "val \<Rightarrow> jsstring \<Rightarrow> val" where
  "member v k =
     (case v of
        VObj fs \<Rightarrow> (case map_of fs k of Some x \<Rightarrow> x | None \<Rightarrow> VUndefined)
      | _ \<Rightarrow> VUndefined)"

definition TypeError :: "jsstring \<Rightarrow> exn" where
  "TypeError msg = Exn (js ''TypeError'') msg"

definition get :: "val \<Rightarrow> jsstring \<Rightarrow> val outcome" where
  "get v k =
     (if v = VUndefined \<or> v = VNull
      then Thrown (TypeError (js ''Cannot read properties of undefined or null''))
      else Returned (member v k))"

text \<open>\<open>key in v\<close> for an object \<open>v\<close>, and writing a property (an existing key keeps its place).\<close>

definition has_key :: "val \<Rightarrow> jsstring \<Rightarrow> bool" where
  "has_key v k = (case v of VObj fs \<Rightarrow> k \<in> fst ` set fs | _ \<Rightarrow> False)"

fun obj_set :: "(jsstring \<times> val) list \<Rightarrow> jsstring \<Rightarrow> val \<Rightarrow> (jsstring \<times> val) list" where
  "obj_set [] k x = [(k, x)]"
| "obj_set ((k', y) # fs) k x = (if k' = k then (k, x) # fs else (k', y) # obj_set fs k x)"

definition typeof_object :: "val \<Rightarrow> bool" where
  "typeof_object v = (case v of VNull \<Rightarrow> True | VArr _ \<Rightarrow> True | VObj _ \<Rightarrow> True
                      | VDate _ \<Rightarrow> True | _ \<Rightarrow> False)"

text \<open>The values that count as false in a condition, \<open>!v\<close> and \<open>v || d\<close>.\<close>

definition falsy :: "val \<Rightarrow> bool" where
  "falsy v = (v = VUndefined \<or> v = VNull \<or> v = VBool False \<or> v = VStr []
              \<or> v = VNum NaN \<or> v = VNum (Finite 0) \<or> v = VNum NegZero)"

definition or_else :: "val \<Rightarrow> val \<Rightarrow> val" where
  "or_else v d = (if falsy v then d else v)"

text \<open>
  \<open>String(v)\<close>, which a template literal applies to each \<open>${v}\<close>. Numbers and dates are
  rendered by the runtime.
\<close>

fun join_with :: "jsstring \<Rightarrow> jsstring list \<Rightarrow> jsstring" where
  "join_with sep [] = []"
| "join_with sep [s] = s"
| "join_with sep (s # t # ss) = s @ sep @ join_with sep (t # ss)"

fun to_string :: "js_runtime \<Rightarrow> val \<Rightarrow> jsstring" where
  "to_string rt VUndefined = js ''undefined''"
| "to_string rt VNull = js ''null''"
| "to_string rt (VBool b) = (if b then js ''true'' else js ''false'')"
| "to_string rt (VNum n) = rt_number_toString rt n"
| "to_string rt (VStr s) = s"
| "to_string rt (VDate d) = rt_date_toString rt d"
| "to_string rt (VArr xs) =
     join_with (js '','')
       (map (\<lambda>x. if x = VUndefined \<or> x = VNull then [] else to_string rt x) xs)"
| "to_string rt (VObj fs) = js ''[object Object]''"

text \<open>\<open>v.length\<close> of a value that is neither \<open>undefined\<close> nor \<open>null\<close>.\<close>

definition js_length :: "val \<Rightarrow> val" where
  "js_length v =
     (case v of
        VArr xs \<Rightarrow> VNum (Finite (real (length xs)))
      | VStr s \<Rightarrow> VNum (Finite (real (length s)))
      | _ \<Rightarrow> member v (js ''length''))"

text \<open>
  \<open>String.prototype.trim\<close> removes white space and line terminators from both ends;
  \<open>startsWith\<close> and \<open>endsWith\<close> compare code units.
\<close>

definition is_white_space :: "code_unit \<Rightarrow> bool" where
  "is_white_space c =
     (c \<in> {0x0009, 0x000A, 0x000B, 0x000C, 0x000D, 0x0020, 0x00A0, 0x1680,
            0x2000, 0x2001, 0x2002, 0x2003, 0x2004, 0x2005, 0x2006, 0x2007,
            0x2008, 0x2009, 0x200A, 0x2028, 0x2029, 0x202F, 0x205F, 0x3000, 0xFEFF})"

definition trim :: "jsstring \<Rightarrow> jsstring" where
  "trim s = rev (dropWhile is_white_space (rev (dropWhile is_white_space s)))"

definition startsWith :: "jsstring \<Rightarrow> jsstring \<Rightarrow> bool" where
  "startsWith s p = (take (length p) s = p)"

definition endsWith :: "jsstring \<Rightarrow> jsstring \<Rightarrow> bool" where
  "endsWith s p = (length p \<le> length s \<and> drop (length s - length p) s = p)"

text \<open>A tool result of the shape \<open>{ content: [{ type: "text", text: t }] }\<close>.\<close>

definition text_content :: "val \<Rightarrow> val" where
  "text_content t =
     VObj [(js ''content'', VArr [VObj [(js ''type'', VStr (js ''text'')), (js ''text'', t)]])]"

section \<open>Effects\<close>

text \<open>
  Modelled from the spec: the data model of the scheduler that the agent's \<open>schedule\<close>
  method stands for (the \<open>Agent\<close> class is not among the sources). A \<open>ScheduleSpec\<close> is
  an absolute instant, a delay in seconds, a cron expression or the explicit
  non-schedule; instants are seconds since the epoch. A \<open>ScheduledTask\<close> has its
  identifier, the spec that produced it, the target name, the payload, the next-fire
  instant and, for a cron task, the expression.
\<close>

datatype ScheduleSpec = Scheduled real | Delayed real | Cron jsstring | NoSchedule

record ScheduledTask =
  task_id :: jsstring
  task_spec :: ScheduleSpec
  task_target :: jsstring
  task_payload :: val
  next_fire :: real
  task_cron :: "jsstring option"

text \<open>
  Every call that leaves the tool body is recorded, in order: the global \<open>fetch\<close>,
  \<open>agent.schedule\<close> and the bindings of the agent's environment.
\<close>

datatype effect =
    Fetch val val
  | Schedule val jsstring val
  | AiSearch jsstring val
  | AiRun jsstring val val
  | BucketPut jsstring jsstring val
  | DoWorkerFetch val val
  | GraphqlWorkerFetch val val

record world =
  effects :: "effect list"
  tasks :: "ScheduledTask list"

text \<open>
  The bindings of \<open>interface Env\<close>. What a service answers is not the program's to decide:
  each is a function of the calls made so far and of the request, and may throw.
\<close>

record Env =
  AI_aiSearch :: "effect list \<Rightarrow> jsstring \<Rightarrow> val \<Rightarrow> val outcome"
  AI_run :: "effect list \<Rightarrow> jsstring \<Rightarrow> val \<Rightarrow> val \<Rightarrow> val outcome"
  PUBLIC_BUCKET_put :: "effect list \<Rightarrow> jsstring \<Rightarrow> jsstring \<Rightarrow> val \<Rightarrow> val outcome"
  doWorker_fetch :: "effect list \<Rightarrow> val \<Rightarrow> val \<Rightarrow> Response outcome"
  graphqlWorker_fetch :: "effect list \<Rightarrow> val \<Rightarrow> val \<Rightarrow> Response outcome"

text \<open>
  A promise that has settled: fulfilled with a value or rejected with an error.
\<close>

datatype 'a promise = Fulfilled 'a | Rejected exn

text \<open>
  The agent that \<open>agentContext\<close> holds: its environment and its \<open>schedule\<close> method. The
  \<open>Agent\<close> class belongs to the package \<open>agents\<close>, which is not among the sources, so the
  method is a parameter: given the tasks the agent keeps, a call of it either throws
  before it returns (\<open>Thrown\<close>) or returns a promise (\<open>Returned\<close>), which is fulfilled with
  the task created or rejected. An \<open>async\<close> method never throws: all its failures are
  rejected promises.
\<close>

record agent =
  env :: Env
  schedule_method ::
    "val \<Rightarrow> jsstring \<Rightarrow> val \<Rightarrow> ScheduledTask list \<Rightarrow> ScheduledTask promise outcome"

text \<open>
  What surrounds a tool body: the runtime, the global \<open>fetch\<close>, \<open>process.env\<close>, the clock
  and random source (read only to name a file and to print the local time), and the
  store of \<open>agentContext\<close>, which is \<open>undefined\<close> outside an active binding.
\<close>

record host =
  runtime :: js_runtime
  global_fetch :: "effect list \<Rightarrow> val \<Rightarrow> val \<Rightarrow> Response outcome"
  process_env :: "jsstring \<Rightarrow> jsstring option"
  fresh_filename :: "effect list \<Rightarrow> jsstring"
  local_time_info :: "effect list \<Rightarrow> val \<Rightarrow> jsstring outcome"
  agentContext_getStore :: "agent option"

type_synonym 'a io = "world \<Rightarrow> 'a outcome \<times> world"

definition io_return :: "'a \<Rightarrow> 'a io" where
  "io_return x w = (Returned x, w)"

definition io_throw :: "exn \<Rightarrow> 'a io" where
  "io_throw e w = (Thrown e, w)"

definition io_lift :: "'a outcome \<Rightarrow> 'a io" where
  "io_lift r w = (r, w)"

definition io_bind :: "'a io \<Rightarrow> ('a \<Rightarrow> 'b io) \<Rightarrow> 'b io" where
  "io_bind m f w = (case m w of (Returned x, w') \<Rightarrow> f x w' | (Thrown e, w') \<Rightarrow> (Thrown e, w'))"

text \<open>\<open>try { m } catch (error) { handler }\<close>.\<close>

definition try_catch :: "'a io \<Rightarrow> (exn \<Rightarrow> 'a io) \<Rightarrow> 'a io" where
  "try_catch m handler w =
     (case m w of (Returned x, w') \<Rightarrow> (Returned x, w') | (Thrown e, w') \<Rightarrow> handler e w')"

definition perform :: "effect \<Rightarrow> (effect list \<Rightarrow> 'a outcome) \<Rightarrow> 'a io" where
  "perform e reply w = (reply (effects w), w\<lparr>effects := effects w @ [e]\<rparr>)"

definition fetch :: "host \<Rightarrow> val \<Rightarrow> val \<Rightarrow> Response io" where
  "fetch h url init = perform (Fetch url init) (\<lambda>log. global_fetch h log url init)"

text \<open>
  The expression \<open>agent.schedule(when, callback, payload)\<close>, not awaited: its value is the
  promise, and an error is thrown only where the call itself throws. The work that the
  promise stands for is taken as done when the call returns: a promise fulfilled with a
  task has added it to the tasks, a rejected one has added nothing.
\<close>

definition agent_schedule :: "agent \<Rightarrow> val \<Rightarrow> jsstring \<Rightarrow> val \<Rightarrow> ScheduledTask promise io" where
  "agent_schedule ag when callback payload w =
     (case schedule_method ag when callback payload (tasks w) of
        Thrown e \<Rightarrow> (Thrown e, w\<lparr>effects := effects w @ [Schedule when callback payload]\<rparr>)
      | Returned (Rejected e) \<Rightarrow>
          (Returned (Rejected e), w\<lparr>effects := effects w @ [Schedule when callback payload]\<rparr>)
      | Returned (Fulfilled t) \<Rightarrow>
          (Returned (Fulfilled t), w\<lparr>effects := effects w @ [Schedule when callback payload],
                                     tasks := tasks w @ [t]\<rparr>))"

text \<open>Reading a reply: \<open>response.ok\<close>, \<open>response.text()\<close> and \<open>response.json()\<close>.\<close>

definition ok :: "Response \<Rightarrow> bool" where
  "ok r = (200 \<le> status r \<and> status r \<le> 299)"

definition response_json :: "host \<Rightarrow> Response \<Rightarrow> val io" where
  "response_json h r = io_lift (rt_JSON_parse (runtime h) (body r))"

definition status_string :: "host \<Rightarrow> Response \<Rightarrow> jsstring" where
  "status_string h r = rt_number_toString (runtime h) (Finite (real (status r)))"

section \<open>The tools (src/tools.ts)\<close>

text \<open>
  Each \<open>execute\<close> is an async function of the validated argument object, and every call
  it makes of a service is awaited, but for \<open>agent.schedule\<close>. The promise that \<open>execute\<close>
  returns is given by how it settles: a rejected one is the outcome \<open>Thrown\<close>. A call of a
  service is recorded in the world. \<open>console.log\<close> and \<open>console.error\<close> are left out.
\<close>

subsection \<open>addCloudflareCustomRule\<close>

text \<open>\<open>process.env.NAME || fallback\<close>: an unset or empty variable gives the fallback.\<close>

definition env_or :: "host \<Rightarrow> jsstring \<Rightarrow> jsstring \<Rightarrow> jsstring" where
  "env_or h name fallback =
     (case process_env h name of None \<Rightarrow> fallback | Some v \<Rightarrow> if v = [] then fallback else v)"

definition CLOUDFLARE_ZONE_ID :: "host \<Rightarrow> jsstring" where
  "CLOUDFLARE_ZONE_ID h =
     env_or h (js ''CLOUDFLARE_ZONE_ID'') (js ''a37b5b3eca17274d2ca0cbc97a950636'')"

definition CLOUDFLARE_RULESET_ID :: "host \<Rightarrow> jsstring" where
  "CLOUDFLARE_RULESET_ID h =
     env_or h (js ''CLOUDFLARE_RULESET_ID'') (js ''f252f8e1e67e42db970584d5e67b9c59'')"

text \<open>
  Lines 981-1012: a rule given as a string is parsed as JSON, a second time after
  escaping its inner quotes (the regular-expression replacement is the runtime's
  \<open>rt_escape_inner_quotes\<close>). \<open>Inl\<close> is the text the tool returns at once. Inside the
  first \<open>catch\<close> the rule is still the string, so the branch that returns
  "Invalid rule format: could not parse string as JSON." is never taken.
\<close>

definition parse_rule :: "js_runtime \<Rightarrow> val \<Rightarrow> val + val" where
  "parse_rule rt rule =
     (case rule of
        VStr s \<Rightarrow>
          (case rt_JSON_parse rt s of
             Returned v \<Rightarrow> Inr v
           | Thrown e \<Rightarrow>
               (case rt_JSON_parse rt (rt_escape_inner_quotes rt s) of
                  Returned v \<Rightarrow> Inr v
                | Thrown e2 \<Rightarrow>
                    Inl (VStr (js (''Invalid rule format: could not parse string as JSON, '' @
                                   ''even after attempting to fix escaping.'')))))
      | _ \<Rightarrow> Inr rule)"

text \<open>Lines 1014-1026: a rule wrapped as \<open>{ type: "object", value: ... }\<close> is unwrapped.\<close>

definition unwrap_rule :: "val \<Rightarrow> val" where
  "unwrap_rule rule =
     (if \<not> falsy rule \<and> typeof_object rule \<and> has_key rule (js ''type'')
         \<and> member rule (js ''type'') = VStr (js ''object'') \<and> has_key rule (js ''value'')
      then member rule (js ''value'') else rule)"

text \<open>
  Lines 1029-1034: the expression is wrapped in parentheses unless its trimmed text
  already starts with "(" and ends with ")". The assignment writes the trimmed text
  between the parentheses; an expression that is not a string has no \<open>trim\<close>.
\<close>

definition set_member :: "val \<Rightarrow> jsstring \<Rightarrow> val \<Rightarrow> val" where
  "set_member v k x = (case v of VObj fs \<Rightarrow> VObj (obj_set fs k x) | _ \<Rightarrow> v)"

definition ensure_parenthesized :: "val \<Rightarrow> val outcome" where
  "ensure_parenthesized rule =
     (if \<not> falsy rule \<and> typeof_object rule \<and> has_key rule (js ''expression'') then
        (case member rule (js ''expression'') of
           VStr e \<Rightarrow>
             (let expr = trim e in
              if \<not> (startsWith expr (js ''('') \<and> endsWith expr (js '')''))
              then Returned (set_member rule (js ''expression'') (VStr (js ''('' @ expr @ js '')'')))
              else Returned rule)
         | _ \<Rightarrow> Thrown (TypeError (js ''rule.expression.trim is not a function'')))
      else Returned rule)"

text \<open>The text that lines 1030-1033 leave in \<open>rule.expression\<close>, for the text \<open>e\<close> found there.\<close>

definition wrap_expression :: "jsstring \<Rightarrow> jsstring" where
  "wrap_expression e =
     (let expr = trim e in
      if \<not> (startsWith expr (js ''('') \<and> endsWith expr (js '')'')) then js ''('' @ expr @ js '')''
      else e)"

text \<open>
  Lines 1040-1045, before the \<open>try\<close>: the address, the headers and the body of the
  request. \<open>new Headers(init)\<close> is the runtime's \<open>rt_new_Headers\<close>: it throws a \<open>TypeError\<close>
  when a name or a value of \<open>init\<close> is not one a header can have. An API token of the
  environment that is empty counts as not set.
\<close>

definition rules_url :: "host \<Rightarrow> jsstring" where
  "rules_url h =
     js ''https://api.cloudflare.com/client/v4/zones/'' @ CLOUDFLARE_ZONE_ID h
       @ js ''/rulesets/'' @ CLOUDFLARE_RULESET_ID h @ js ''/rules''"

definition rules_headers :: "jsstring \<Rightarrow> val" where
  "rules_headers apiToken =
     VObj [(js ''Content-Type'', VStr (js ''application/json'')),
           (js ''Authorization'', VStr (js ''Bearer '' @ apiToken))]"

text \<open>Lines 1046-1061: the request is sent and its reply read inside the \<open>try\<close>.\<close>

definition rules_request :: "val \<Rightarrow> jsstring \<Rightarrow> val" where
  "rules_request request_headers request_body =
     VObj [(js ''method'', VStr (js ''POST'')),
           (js ''headers'', request_headers),
           (js ''body'', VStr request_body),
           (js ''redirect'', VStr (js ''follow''))]"

definition send_rule :: "host \<Rightarrow> val \<Rightarrow> jsstring \<Rightarrow> val io" where
  "send_rule h request_headers request_body =
     try_catch
       (io_bind (fetch h (VStr (rules_url h)) (rules_request request_headers request_body))
          (\<lambda>response.
        io_bind (response_json h response) (\<lambda>data.
          if \<not> ok response then
            io_bind (io_lift (get data (js ''errors''))) (\<lambda>errors.
              io_return (VStr (js ''Error from Cloudflare API: '' @
                (if \<not> falsy errors then rt_JSON_stringify (runtime h) errors
                 else statusText response))))
          else io_return data)))
       (\<lambda>error. io_return (VStr (js ''Error adding Cloudflare custom rule: '' @ exn_toString error)))"

definition addCloudflareCustomRule_execute :: "host \<Rightarrow> val \<Rightarrow> val io" where
  "addCloudflareCustomRule_execute h args =
     (case parse_rule (runtime h) (member args (js ''rule'')) of
        Inl message \<Rightarrow> io_return message
      | Inr parsed \<Rightarrow>
          io_bind (io_lift (ensure_parenthesized (unwrap_rule parsed))) (\<lambda>rule.
            case process_env h (js ''CLOUDFLARE_API_TOKEN'') of
              None \<Rightarrow>
                io_return (VStr (js ''CLOUDFLARE_API_TOKEN is not set in environment variables.''))
            | Some apiToken \<Rightarrow>
                if apiToken = [] then
                  io_return (VStr (js ''CLOUDFLARE_API_TOKEN is not set in environment variables.''))
                else
                  io_bind (io_lift (rt_new_Headers (runtime h) (rules_headers apiToken)))
                    (\<lambda>request_headers.
                       send_rule h request_headers (rt_JSON_stringify (runtime h) rule))))"

subsection \<open>scheduleTask\<close>

text \<open>
  Lines 386-413. The agent is read from the context first, outside any \<open>try\<close>. The call
  \<open>agent.schedule(input, "executeTask", description)\<close> is not awaited and its value is
  dropped: the \<open>catch\<close> sees what the call itself throws and never the rejection of the
  promise it returns. \<open>Inl\<close> is the text returned from the \<open>catch\<close> block.
\<close>

definition schedule_input :: "val \<Rightarrow> val \<Rightarrow> val outcome" where
  "schedule_input when ty =
     (if ty = VStr (js ''scheduled'') then Returned (member when (js ''date''))
      else if ty = VStr (js ''delayed'') then Returned (member when (js ''delayInSeconds''))
      else if ty = VStr (js ''cron'') then Returned (member when (js ''cron''))
      else Thrown (new_Error (js ''not a valid schedule input'')))"

definition scheduled_message :: "js_runtime \<Rightarrow> val \<Rightarrow> val \<Rightarrow> jsstring" where
  \<open>scheduled_message rt ty input =
     js ''Task scheduled for type "'' @ to_string rt ty @ js ''" : '' @ to_string rt input\<close>

definition scheduleTask_execute :: "host \<Rightarrow> val \<Rightarrow> val io" where
  "scheduleTask_execute h args =
     (let when = member args (js ''when''); description = member args (js ''description'') in
      case agentContext_getStore h of
        None \<Rightarrow> io_throw (new_Error (js ''No agent found''))
      | Some ag \<Rightarrow>
          io_bind (io_lift (get when (js ''type''))) (\<lambda>ty.
            if ty = VStr (js ''no-schedule'') then io_return (VStr (js ''Not a valid schedule input''))
            else
              io_bind (io_lift (schedule_input when ty)) (\<lambda>input.
              io_bind
                (try_catch
                   (io_bind (agent_schedule ag input (js ''executeTask'') description)
                      (\<lambda>dropped. io_return (Inr ())))
                   (\<lambda>error.
                      io_return (Inl (VStr (js ''Error scheduling task: '' @ exn_toString error)))))
                (\<lambda>r. case r of
                        Inl message \<Rightarrow> io_return message
                      | Inr u \<Rightarrow>
                          io_return (VStr (scheduled_message (runtime h) ty input))))))"

subsection \<open>sendWebhook\<close>

text \<open>
  Lines 29-77. The whole work is inside one \<open>try\<close>, here \<open>sendWebhook_body\<close>; the \<open>catch\<close>
  returns the error as text. The other tools of this shape are written the same way: the
  \<open>try\<close> block as the body, and the tool as the body under its \<open>catch\<close>.
\<close>

definition sendWebhook_body :: "host \<Rightarrow> val \<Rightarrow> val io" where
  "sendWebhook_body h args =
     (let message = member args (js ''message'');
          hookurl = env_or h (js ''GOOGLE_CHAT_WEBHOOK_URL'') [];
          payload = rt_JSON_stringify (runtime h) (VObj [(js ''text'', message)])
      in
        io_bind
          (fetch h (VStr hookurl)
             (VObj [(js ''method'', VStr (js ''POST'')),
                    (js ''headers'',
                       VObj [(js ''Content-Type'', VStr (js ''application/json; charset=UTF-8''))]),
                    (js ''body'', VStr payload)]))
          (\<lambda>response.
             let responseText = body response in
             if \<not> ok response then
               io_throw (new_Error (js ''HTTP error! status: '' @ status_string h response
                                      @ js '', body: '' @ responseText))
             else io_return (text_content (VStr (js ''Message successfully sent to the webhook.'')))))"

definition sendWebhook_execute :: "host \<Rightarrow> val \<Rightarrow> val io" where
  "sendWebhook_execute h args =
     try_catch (sendWebhook_body h args)
       (\<lambda>error.
          io_return (text_content (VStr (js ''Failed to send message to the webhook. Error: ''
                                          @ exn_toString error))))"

subsection \<open>getWeatherInformation and getLocalTime\<close>

text \<open>
  \<open>!data.results || data.results.length === 0\<close> and \<open>data.results[0]\<close> on the decoded reply.
\<close>

definition no_results :: "val \<Rightarrow> bool outcome" where
  "no_results data =
     (case get data (js ''results'') of
        Thrown e \<Rightarrow> Thrown e
      | Returned results \<Rightarrow>
          Returned (falsy results \<or> js_length results = VNum (Finite 0)
                    \<or> js_length results = VNum NegZero))"

definition first_result :: "val \<Rightarrow> val" where
  "first_result data =
     (case member data (js ''results'') of
        VArr xs \<Rightarrow> (case xs of [] \<Rightarrow> VUndefined | x # _ \<Rightarrow> x)
      | VStr s \<Rightarrow> (case s of [] \<Rightarrow> VUndefined | c # _ \<Rightarrow> VStr [c])
      | v \<Rightarrow> member v (js ''0''))"

definition geocoding_url :: "jsstring \<Rightarrow> jsstring" where
  "geocoding_url name =
     js ''https://geocoding-api.open-meteo.com/v1/search?name='' @ name
       @ js ''&count=1&language=en&format=json''"

text \<open>
  Lines 91-202. The lines that only build text from the decoded replies are functions of
  the runtime: \<open>rt_weather_url\<close> (lines 117-125) and \<open>rt_weather_info\<close> (lines 133-181);
  they throw a \<open>TypeError\<close> where a field they read from is missing.
\<close>

definition getWeatherInformation_body :: "host \<Rightarrow> val \<Rightarrow> val io" where
  \<open>getWeatherInformation_body h args =
     (let city = member args (js ''city'') in
      io_bind (io_lift (rt_encodeURIComponent (runtime h) city)) (\<lambda>encoded.
      io_bind (fetch h (VStr (geocoding_url encoded)) VUndefined) (\<lambda>geocodingResponse.
        if \<not> ok geocodingResponse then
          io_throw (new_Error (js ''Geocoding API error: '' @ status_string h geocodingResponse))
        else
          io_bind (response_json h geocodingResponse) (\<lambda>geocodingData.
          io_bind (io_lift (no_results geocodingData)) (\<lambda>none.
            if none then
              io_return (text_content (VStr (js ''City "'' @ to_string (runtime h) city
                @ js ''" not found. Please check the spelling or try a different city name.'')))
            else
              let location = first_result geocodingData in
              io_bind (io_lift (rt_weather_url (runtime h) location)) (\<lambda>weatherUrl.
              io_bind (fetch h (VStr weatherUrl) VUndefined) (\<lambda>weatherResponse.
                if \<not> ok weatherResponse then
                  io_throw (new_Error (js ''Weather API error: ''
                                         @ status_string h weatherResponse))
                else
                  io_bind (response_json h weatherResponse) (\<lambda>weatherData.
                  io_bind (io_lift (rt_weather_info (runtime h) location weatherData))
                    (\<lambda>weatherInfo. io_return (text_content (VStr weatherInfo)))))))))))\<close>

definition getWeatherInformation_execute :: "host \<Rightarrow> val \<Rightarrow> val io" where
  \<open>getWeatherInformation_execute h args =
     try_catch (getWeatherInformation_body h args)
       (\<lambda>error.
          io_return (text_content (VStr (js ''Failed to get weather information for "''
            @ to_string (runtime h) (member args (js ''city'')) @ js ''". Error: ''
            @ exn_toString error))))\<close>

text \<open>
  Lines 217-321. Lines 244-300 read the clock and format the time of the location: the
  host's \<open>local_time_info\<close>.
\<close>

definition getLocalTime_body :: "host \<Rightarrow> val \<Rightarrow> val io" where
  \<open>getLocalTime_body h args =
     (let location = member args (js ''location'') in
      io_bind (io_lift (rt_encodeURIComponent (runtime h) location)) (\<lambda>encoded.
      io_bind (fetch h (VStr (geocoding_url encoded)) VUndefined) (\<lambda>geocodingResponse.
        if \<not> ok geocodingResponse then
          io_throw (new_Error (js ''Geocoding API error: '' @ status_string h geocodingResponse))
        else
          io_bind (response_json h geocodingResponse) (\<lambda>geocodingData.
          io_bind (io_lift (no_results geocodingData)) (\<lambda>none.
            if none then
              io_return (VObj [(js ''content'',
                  VArr [VObj [(js ''type'', VStr (js ''text'')),
                              (js ''text'', VStr (js ''Location "'' @ to_string (runtime h) location
                 @ js ''" not found. Please check the spelling or try a different location name.''))]]),
                (js ''type'', VStr (js ''text''))])
            else
              let locationData = first_result geocodingData in
              io_bind (\<lambda>w. (local_time_info h (effects w) locationData, w))
                (\<lambda>timeInfo. io_return (text_content (VStr timeInfo))))))))\<close>

definition getLocalTime_execute :: "host \<Rightarrow> val \<Rightarrow> val io" where
  \<open>getLocalTime_execute h args =
     try_catch (getLocalTime_body h args)
       (\<lambda>error.
          io_return (text_content (VStr (js ''Failed to get local time for "''
            @ to_string (runtime h) (member args (js ''location'')) @ js ''". Error: ''
            @ exn_toString error))))\<close>

subsection \<open>searchDocs\<close>

text \<open>\<open>v?.key\<close>: \<open>undefined\<close> when \<open>v\<close> is \<open>undefined\<close> or \<open>null\<close>.\<close>

definition optional_member :: "val \<Rightarrow> jsstring \<Rightarrow> val" where
  "optional_member v k = (if v = VUndefined \<or> v = VNull then VUndefined else member v k)"

definition autorag_query :: "val \<Rightarrow> val" where
  "autorag_query message =
     VObj [(js ''query'', message),
           (js ''rewrite_query'', VBool True),
           (js ''max_num_results'', VNum (Finite 3)),
           (js ''ranking_options'', VObj [(js ''score_threshold'', VNum (Finite (3 / 10)))])]"

text \<open>Lines 335-377. The agent is read from the context inside the \<open>try\<close>.\<close>

definition searchDocs_body :: "host \<Rightarrow> val \<Rightarrow> val io" where
  "searchDocs_body h args =
     (let message = member args (js ''message'') in
      case agentContext_getStore h of
        None \<Rightarrow> io_throw (new_Error (js ''No agent found''))
      | Some ag \<Rightarrow>
          io_bind
            (perform (AiSearch (js ''dark-wind-fbc8'') (autorag_query message))
               (\<lambda>log. AI_aiSearch (env ag) log (js ''dark-wind-fbc8'') (autorag_query message)))
            (\<lambda>response.
               if falsy (optional_member response (js ''response'')) then
                 io_throw (new_Error (js ''No response from AutoRAG''))
               else io_return (text_content (member response (js ''response'')))))"

definition searchDocs_execute :: "host \<Rightarrow> val \<Rightarrow> val io" where
  "searchDocs_execute h args =
     try_catch (searchDocs_body h args)
       (\<lambda>error.
          io_return (text_content (VStr (js ''Failed to search Cloudflare documentation. Error: ''
                                          @ exn_toString error))))"

subsection \<open>generateImage\<close>

definition image_options :: val where
  "image_options =
     VObj [(js ''gateway'',
        VObj [(js ''id'', VStr (js ''agents'')),
              (js ''skipCache'', VBool False),
              (js ''cacheTtl'', VNum (Finite 3360)),
              (js ''metadata'', VObj [(js ''application'', VStr (js ''openai-wrapper'')),
                                      (js ''user'', VStr (js ''aj'')),
                                      (js ''dev'', VBool True)])])]"

definition put_options :: val where
  "put_options =
     VObj [(js ''httpMetadata'',
        VObj [(js ''contentType'', VStr (js ''image/jpeg'')),
              (js ''cacheControl'', VStr (js ''public, max-age=31536000''))])]"

definition image_result :: "jsstring \<Rightarrow> val" where
  "image_result t = VObj [(js ''type'', VStr (js ''text'')), (js ''text'', VStr t)]"

text \<open>
  Lines 438-529. The agent is read from the context inside the \<open>try\<close>. The logging at
  lines 472-481 calls \<open>substring\<close> on an image that is there, which a value that is not a
  string does not have. The file name of lines 489-491 comes from the clock and the
  random source of the host.
\<close>

definition generateImage_body :: "host \<Rightarrow> val \<Rightarrow> val io" where
  \<open>generateImage_body h args =
     (let prompt = member args (js ''prompt''); steps = member args (js ''steps'') in
      case agentContext_getStore h of
        None \<Rightarrow> io_throw (new_Error (js ''No agent found''))
      | Some ag \<Rightarrow>
          let model = js ''@cf/black-forest-labs/flux-1-schnell'';
              input = VObj [(js ''prompt'', prompt), (js ''steps'', steps)]
          in
          io_bind
            (perform (AiRun model input image_options)
               (\<lambda>log. AI_run (env ag) log model input image_options))
            (\<lambda>response.
               let image = optional_member response (js ''image'') in
               if falsy image then io_throw (new_Error (js ''No image generated in response''))
               else
                 case image of
                   VStr base64Data \<Rightarrow>
                     io_bind (\<lambda>w. (Returned (fresh_filename h (effects w)), w)) (\<lambda>filename.
                       let key = js ''ai-generated/'' @ filename in
                       io_bind (io_lift (rt_atob (runtime h) (VStr base64Data))) (\<lambda>binaryString.
                         let bytes = map (\<lambda>c. c mod 256) binaryString in
                         io_bind
                           (perform (BucketPut key bytes put_options)
                              (\<lambda>log. PUBLIC_BUCKET_put (env ag) log key bytes put_options))
                           (\<lambda>stored.
                              let publicUrl = js ''https://r2.zxc.co.in/'' @ key in
                              io_return (image_result
                                (js ''I have generated an image of a "''
                                   @ to_string (runtime h) prompt
                                   @ js ''". View it at: '' @ publicUrl)))))
                 | _ \<Rightarrow>
                     io_throw (TypeError (js ''response.image.substring is not a function''))))\<close>

definition generateImage_execute :: "host \<Rightarrow> val \<Rightarrow> val io" where
  "generateImage_execute h args =
     try_catch (generateImage_body h args)
       (\<lambda>error.
          io_return (image_result (js ''Failed to generate image. Error: '' @ exn_toString error)))"

subsection \<open>searchCountry and searchPokemon\<close>

text \<open>
  Lines 648-707. Lines 672-686, which format the decoded countries, are the runtime's
  \<open>rt_countries_info\<close>.
\<close>

definition searchCountry_body :: "host \<Rightarrow> val \<Rightarrow> val io" where
  \<open>searchCountry_body h args =
     (let name = member args (js ''name''); fullName = member args (js ''fullName'') in
      io_bind (io_lift (rt_encodeURIComponent (runtime h) name)) (\<lambda>encoded.
        let url = js ''https://restcountries.com/v3.1/name'' @ js ''/'' @ encoded
                    @ (if \<not> falsy fullName then js ''?fullText=true'' else [])
        in
        io_bind (fetch h (VStr url) VUndefined) (\<lambda>response.
          if \<not> ok response then
            (if status response = 404 then
               io_return (text_content (VStr (js ''No country found with the name "''
                                               @ to_string (runtime h) name @ js ''"'')))
             else io_throw (new_Error (js ''HTTP error! status: '' @ status_string h response)))
          else
            io_bind (response_json h response) (\<lambda>countries.
            io_bind (io_lift (rt_countries_info (runtime h) countries))
              (\<lambda>formatted. io_return (text_content (VStr formatted)))))))\<close>

definition searchCountry_execute :: "host \<Rightarrow> val \<Rightarrow> val io" where
  "searchCountry_execute h args =
     try_catch (searchCountry_body h args)
       (\<lambda>error.
          io_return (text_content (VStr (js ''Failed to fetch country details. Error: ''
                                          @ exn_toString error))))"

text \<open>
  Lines 718-774. The address (lines 721-724) and the text of the answer (lines 745-759)
  are the runtime's \<open>rt_pokemon_url\<close> and \<open>rt_pokemon_info\<close>. The second letter "e" of
  the name in the texts is accented: the code unit 0xE9.
\<close>

definition Pokemon :: jsstring where
  "Pokemon = js ''Pok'' @ [0xE9] @ js ''mon''"

definition searchPokemon_body :: "host \<Rightarrow> val \<Rightarrow> val io" where
  \<open>searchPokemon_body h args =
     (let query = member args (js ''query'') in
      io_bind (io_lift (rt_pokemon_url (runtime h) query)) (\<lambda>url.
        io_bind (fetch h (VStr url) VUndefined) (\<lambda>response.
          if \<not> ok response then
            (if status response = 404 then
               io_return (text_content (VStr (js ''No '' @ Pokemon @ js '' found with the name or ID "''
                                               @ to_string (runtime h) query @ js ''"'')))
             else io_throw (new_Error (js ''HTTP error! status: '' @ status_string h response)))
          else
            io_bind (response_json h response) (\<lambda>pokemon.
            io_bind (io_lift (rt_pokemon_info (runtime h) pokemon))
              (\<lambda>info. io_return (text_content (VStr info)))))))\<close>

definition searchPokemon_execute :: "host \<Rightarrow> val \<Rightarrow> val io" where
  "searchPokemon_execute h args =
     try_catch (searchPokemon_body h args)
       (\<lambda>error.
          io_return (text_content (VStr (js ''Failed to fetch '' @ Pokemon @ js '' details. Error: ''
                                          @ exn_toString error))))"

subsection \<open>callDoWorker and callgraphqlWorker\<close>

text \<open>\<open>{ ...base, ...v }\<close>: the properties of an object \<open>v\<close> written over those of \<open>base\<close>.\<close>

definition spread :: "(jsstring \<times> val) list \<Rightarrow> val \<Rightarrow> (jsstring \<times> val) list" where
  "spread base v =
     (case v of VObj fs \<Rightarrow> fold (\<lambda>(k, x) acc. obj_set acc k x) fs base | _ \<Rightarrow> base)"

text \<open>A parameter with a default, \<open>name = d\<close>: the default stands in for \<open>undefined\<close>.\<close>

definition with_default :: "val \<Rightarrow> val \<Rightarrow> val" where
  "with_default v d = (if v = VUndefined then d else v)"

text \<open>Lines 794-842. The agent is read from the context inside the \<open>try\<close>.\<close>

definition callDoWorker_body :: "host \<Rightarrow> val \<Rightarrow> val io" where
  "callDoWorker_body h args =
     (let workerName = member args (js ''workerName'');
          method = with_default (member args (js ''method'')) (VStr (js ''GET''));
          payload = member args (js ''body'');
          extra = with_default (member args (js ''headers'')) (VObj [])
      in
      case agentContext_getStore h of
        None \<Rightarrow> io_throw (new_Error (js ''No agent found''))
      | Some ag \<Rightarrow>
          let requestInit =
                [(js ''method'', method),
                 (js ''headers'',
                    VObj (spread [(js ''Content-Type'', VStr (js ''application/json''))] extra))];
              init =
                VObj (if \<not> falsy payload
                         \<and> (method = VStr (js ''POST'') \<or> method = VStr (js ''PUT'')
                              \<or> method = VStr (js ''PATCH''))
                      then obj_set requestInit (js ''body'') payload else requestInit);
              url = VStr (js ''https://'' @ to_string (runtime h) workerName @ js ''.workers.dev'')
          in
          io_bind (perform (DoWorkerFetch url init) (\<lambda>log. doWorker_fetch (env ag) log url init))
            (\<lambda>response.
               let responseText = body response in
               io_return (text_content (VStr (js ''Worker response ('' @ status_string h response
                                               @ js ''): '' @ responseText)))))"

definition callDoWorker_execute :: "host \<Rightarrow> val \<Rightarrow> val io" where
  "callDoWorker_execute h args =
     try_catch (callDoWorker_body h args)
       (\<lambda>error.
          io_return (text_content (VStr (js ''Failed to call worker. Error: ''
                                          @ exn_toString error))))"

definition default_graphql_query :: jsstring where
  "default_graphql_query =
     [10] @ js ''        query {'' @ [10] @ js ''          totalUserAgent {'' @ [10]
       @ js ''            count'' @ [10] @ js ''            timestamp'' @ [10]
       @ js ''          }'' @ [10] @ js ''        }'' @ [10] @ js ''      ''"

text \<open>Lines 854-907. The agent is read from the context inside the \<open>try\<close>.\<close>

definition callgraphqlWorker_body :: "host \<Rightarrow> val \<Rightarrow> val io" where
  "callgraphqlWorker_body h args =
     (let query = member args (js ''query'') in
      case agentContext_getStore h of
        None \<Rightarrow> io_throw (new_Error (js ''No agent found''))
      | Some ag \<Rightarrow>
          let defaultQuery = or_else query (VStr default_graphql_query);
              url = VStr (js ''https://graphql-worker.workers.dev/graphql'');
              init = VObj [(js ''method'', VStr (js ''POST'')),
                           (js ''headers'',
                              VObj [(js ''Content-Type'', VStr (js ''application/json''))]),
                           (js ''body'',
                              VStr (rt_JSON_stringify (runtime h)
                                      (VObj [(js ''query'', defaultQuery)])))]
          in
          io_bind
            (perform (GraphqlWorkerFetch url init)
               (\<lambda>log. graphqlWorker_fetch (env ag) log url init))
            (\<lambda>response.
               io_bind (response_json h response) (\<lambda>responseData.
                 io_return (text_content (VStr (js ''GraphQL Worker response: ''
                   @ rt_JSON_stringify_pretty (runtime h) responseData))))))"

definition callgraphqlWorker_execute :: "host \<Rightarrow> val \<Rightarrow> val io" where
  "callgraphqlWorker_execute h args =
     try_catch (callgraphqlWorker_body h args)
       (\<lambda>error.
          io_return (text_content (VStr (js ''Failed to call GraphQL worker. Error: ''
                                          @ exn_toString error))))"

section \<open>Input schemas and the tools export\<close>

text \<open>
  The schemas are written with zod, a dependency. The combinators below are the
  constructors the source uses, with the behaviour zod documents: parsing a value gives
  the parsed value (defaults filled in, unknown keys of an object stripped) or the issues
  found; an absent property is parsed as \<open>undefined\<close>.
\<close>

datatype issue_code = invalid_type | too_small | too_big | invalid_literal | invalid_union
  | invalid_date

datatype issue = Issue issue_code "jsstring list"

type_synonym schema = "val \<Rightarrow> issue list + val"

definition z_string :: schema where
  "z_string v = (case v of VStr s \<Rightarrow> Inr v | _ \<Rightarrow> Inl [Issue invalid_type []])"

definition z_number :: schema where
  "z_number v =
     (case v of VNum n \<Rightarrow> if n = NaN then Inl [Issue invalid_type []] else Inr v
      | _ \<Rightarrow> Inl [Issue invalid_type []])"

definition z_boolean :: schema where
  "z_boolean v = (case v of VBool b \<Rightarrow> Inr v | _ \<Rightarrow> Inl [Issue invalid_type []])"

definition z_literal :: "val \<Rightarrow> schema" where
  "z_literal x v = (if v = x then Inr v else Inl [Issue invalid_literal []])"

text \<open>A check added to a schema, as \<open>.min(n)\<close> and \<open>.max(n)\<close> are.\<close>

definition refine :: "schema \<Rightarrow> (val \<Rightarrow> issue_code option) \<Rightarrow> schema" where
  "refine s check v =
     (case s v of
        Inl issues \<Rightarrow> Inl issues
      | Inr x \<Rightarrow> (case check x of None \<Rightarrow> Inr x | Some c \<Rightarrow> Inl [Issue c []]))"

definition min_length :: "nat \<Rightarrow> val \<Rightarrow> issue_code option" where
  "min_length n v = (case v of VStr s \<Rightarrow> if length s < n then Some too_small else None | _ \<Rightarrow> None)"

definition max_length :: "nat \<Rightarrow> val \<Rightarrow> issue_code option" where
  "max_length n v = (case v of VStr s \<Rightarrow> if n < length s then Some too_big else None | _ \<Rightarrow> None)"

definition min_value :: "real \<Rightarrow> val \<Rightarrow> issue_code option" where
  "min_value x v =
     (case v of VNum n \<Rightarrow> if number_less n (Finite x) then Some too_small else None | _ \<Rightarrow> None)"

definition max_value :: "real \<Rightarrow> val \<Rightarrow> issue_code option" where
  "max_value x v =
     (case v of VNum n \<Rightarrow> if number_less (Finite x) n then Some too_big else None | _ \<Rightarrow> None)"

definition z_optional :: "schema \<Rightarrow> schema" where
  "z_optional s v = (if v = VUndefined then Inr VUndefined else s v)"

definition z_default :: "val \<Rightarrow> schema \<Rightarrow> schema" where
  "z_default d s v = s (if v = VUndefined then d else v)"

fun z_union :: "schema list \<Rightarrow> schema" where
  "z_union [] v = Inl [Issue invalid_union []]"
| "z_union (s # ss) v = (case s v of Inr x \<Rightarrow> Inr x | Inl issues \<Rightarrow> z_union ss v)"

definition at_key :: "jsstring \<Rightarrow> issue \<Rightarrow> issue" where
  "at_key k i = (case i of Issue c path \<Rightarrow> Issue c (k # path))"

text \<open>
  The properties of an object against a shape: every declared key is parsed, the issues
  of all of them are collected, and the parsed object has the declared keys that were
  given or got a value.
\<close>

fun parse_shape :: "(jsstring \<times> schema) list \<Rightarrow> val \<Rightarrow> issue list + (jsstring \<times> val) list" where
  "parse_shape [] v = Inr []"
| "parse_shape ((k, s) # shape) v =
     (case (s (member v k), parse_shape shape v) of
        (Inl issues, Inl others) \<Rightarrow> Inl (map (at_key k) issues @ others)
      | (Inl issues, Inr fs) \<Rightarrow> Inl (map (at_key k) issues)
      | (Inr x, Inl others) \<Rightarrow> Inl others
      | (Inr x, Inr fs) \<Rightarrow> Inr (if has_key v k \<or> x \<noteq> VUndefined then (k, x) # fs else fs))"

definition z_object :: "(jsstring \<times> schema) list \<Rightarrow> schema" where
  "z_object shape v =
     (case v of
        VObj fs \<Rightarrow> (case parse_shape shape v of Inl issues \<Rightarrow> Inl issues | Inr out \<Rightarrow> Inr (VObj out))
      | _ \<Rightarrow> Inl [Issue invalid_type []])"

fun parse_values :: "schema \<Rightarrow> (jsstring \<times> val) list \<Rightarrow> issue list + (jsstring \<times> val) list" where
  "parse_values s [] = Inr []"
| "parse_values s ((k, x) # fs) =
     (case (s x, parse_values s fs) of
        (Inl issues, Inl others) \<Rightarrow> Inl (map (at_key k) issues @ others)
      | (Inl issues, Inr out) \<Rightarrow> Inl (map (at_key k) issues)
      | (Inr y, Inl others) \<Rightarrow> Inl others
      | (Inr y, Inr out) \<Rightarrow> Inr ((k, y) # out))"

definition z_record :: "schema \<Rightarrow> schema" where
  "z_record s v =
     (case v of
        VObj fs \<Rightarrow> (case parse_values s fs of Inl issues \<Rightarrow> Inl issues | Inr out \<Rightarrow> Inr (VObj out))
      | _ \<Rightarrow> Inl [Issue invalid_type []])"

text \<open>
  A tool as \<open>tool({ description, parameters, execute })\<close> makes it: its input schema and,
  when it has one, its executor. The description is prose for the language model and is
  left out.
\<close>

record tool =
  parameters :: schema
  execute :: "(host \<Rightarrow> val \<Rightarrow> val io) option"

definition sendWebhook :: tool where
  "sendWebhook =
     \<lparr> parameters = z_object [(js ''message'', z_string)],
       execute = Some sendWebhook_execute \<rparr>"

definition getWeatherInformation :: tool where
  "getWeatherInformation =
     \<lparr> parameters = z_object [(js ''city'', z_string)],
       execute = Some getWeatherInformation_execute \<rparr>"

definition getLocalTime :: tool where
  "getLocalTime =
     \<lparr> parameters = z_object [(js ''location'', z_string)],
       execute = Some getLocalTime_execute \<rparr>"

definition searchDocs :: tool where
  "searchDocs =
     \<lparr> parameters = z_object [(js ''message'', z_string)],
       execute = Some searchDocs_execute \<rparr>"

text \<open>
  Modelled from the spec: \<open>unstable_scheduleSchema\<close> is imported from the package
  \<open>agents/schedule\<close>, which is not among the sources. Section 6 gives the shape of a
  schedule submission: a description and a \<open>when\<close> that is one of four variants, told
  apart by \<open>type\<close>. A date arrives as text and is turned into a \<open>Date\<close> by the runtime.
\<close>

definition z_coerce_date :: "(val \<Rightarrow> real option) \<Rightarrow> schema" where
  "z_coerce_date new_Date v =
     (case new_Date v of Some ms \<Rightarrow> Inr (VDate ms) | None \<Rightarrow> Inl [Issue invalid_date []])"

definition unstable_scheduleSchema :: "(val \<Rightarrow> real option) \<Rightarrow> schema" where
  "unstable_scheduleSchema new_Date =
     z_object
       [(js ''description'', z_string),
        (js ''when'',
           z_union
             [z_object [(js ''type'', z_literal (VStr (js ''scheduled''))),
                        (js ''date'', z_coerce_date new_Date)],
              z_object [(js ''type'', z_literal (VStr (js ''delayed''))),
                        (js ''delayInSeconds'', z_number)],
              z_object [(js ''type'', z_literal (VStr (js ''cron''))),
                        (js ''cron'', z_string)],
              z_object [(js ''type'', z_literal (VStr (js ''no-schedule'')))]])]"

definition scheduleTask :: "(val \<Rightarrow> real option) \<Rightarrow> tool" where
  "scheduleTask new_Date =
     \<lparr> parameters = unstable_scheduleSchema new_Date,
       execute = Some scheduleTask_execute \<rparr>"

text \<open>
  Lines 422-437: \<open>z.string().min(1).max(2048)\<close> and
  \<open>z.number().min(1).max(8).optional().default(4)\<close>.
\<close>

definition prompt_parameter :: schema where
  "prompt_parameter = refine (refine z_string (min_length 1)) (max_length 2048)"

definition steps_parameter :: schema where
  "steps_parameter =
     z_default (VNum (Finite 4)) (z_optional (refine (refine z_number (min_value 1)) (max_value 8)))"

definition generateImage :: tool where
  "generateImage =
     \<lparr> parameters = z_object [(js ''prompt'', prompt_parameter), (js ''steps'', steps_parameter)],
       execute = Some generateImage_execute \<rparr>"

definition searchCountry :: tool where
  "searchCountry =
     \<lparr> parameters =
         z_object [(js ''name'', z_string),
                   (js ''fullName'', z_default (VBool False) (z_optional z_boolean))],
       execute = Some searchCountry_execute \<rparr>"

definition searchPokemon :: tool where
  "searchPokemon =
     \<lparr> parameters = z_object [(js ''query'', z_string)],
       execute = Some searchPokemon_execute \<rparr>"

definition callDoWorker :: tool where
  "callDoWorker =
     \<lparr> parameters =
         z_object [(js ''workerName'', z_string),
                   (js ''method'', z_default (VStr (js ''GET'')) (z_optional z_string)),
                   (js ''body'', z_optional z_string),
                   (js ''headers'', z_optional (z_record z_string))],
       execute = Some callDoWorker_execute \<rparr>"

definition callgraphqlWorker :: tool where
  "callgraphqlWorker =
     \<lparr> parameters = z_object [(js ''query'', z_optional z_string)],
       execute = Some callgraphqlWorker_execute \<rparr>"

definition rule_shape :: "(jsstring \<times> schema) list" where
  "rule_shape =
     [(js ''action'', z_string), (js ''description'', z_string), (js ''expression'', z_string)]"

definition addCloudflareCustomRule :: tool where
  "addCloudflareCustomRule =
     \<lparr> parameters =
         z_object
           [(js ''rule'',
               z_union
                 [z_object rule_shape,
                  z_object [(js ''type'', z_literal (VStr (js ''object''))),
                            (js ''value'', z_object rule_shape)],
                  z_string])],
       execute = Some addCloudflareCustomRule_execute \<rparr>"

text \<open>Lines 1069-1081: the tools export, and lines 1088-1090: the executions, which are none.\<close>

definition tools :: "(val \<Rightarrow> real option) \<Rightarrow> (jsstring \<times> tool) list" where
  "tools new_Date =
     [(js ''getWeatherInformation'', getWeatherInformation),
      (js ''getLocalTime'', getLocalTime),
      (js ''scheduleTask'', scheduleTask new_Date),
      (js ''sendWebhook'', sendWebhook),
      (js ''searchDocs'', searchDocs),
      (js ''generateImage'', generateImage),
      (js ''searchCountry'', searchCountry),
      (js ''searchPokemon'', searchPokemon),
      (js ''callDoWorker'', callDoWorker),
      (js ''callgraphqlWorker'', callgraphqlWorker),
      (js ''addCloudflareCustomRule'', addCloudflareCustomRule)]"

definition executions :: "(jsstring \<times> (host \<Rightarrow> val \<Rightarrow> val io)) list" where
  "executions = []"

section \<open>The scheduler\<close>

subsection \<open>Calendar\<close>

text \<open>
  Modelled from the spec: the spec writes instants as dates and times of day in UTC
  (2024-01-01T10:00:00Z). An instant is a number of seconds since 1970-01-01T00:00:00Z;
  these are the days since that date of a date of the proleptic Gregorian calendar, the
  date of a number of days, and the instant of a date and time of day.
\<close>

definition days_from_civil :: "int \<Rightarrow> int \<Rightarrow> int \<Rightarrow> int" where
  "days_from_civil y m d =
     (let y' = (if m \<le> 2 then y - 1 else y);
          era = y' div 400;
          yoe = y' - era * 400;
          doy = (153 * (if m > 2 then m - 3 else m + 9) + 2) div 5 + d - 1;
          doe = yoe * 365 + yoe div 4 - yoe div 100 + doy
      in era * 146097 + doe - 719468)"

definition civil_from_days :: "int \<Rightarrow> int \<times> int \<times> int" where
  "civil_from_days z =
     (let z' = z + 719468;
          era = z' div 146097;
          doe = z' - era * 146097;
          yoe = (doe - doe div 1460 + doe div 36524 - doe div 146096) div 365;
          doy = doe - (365 * yoe + yoe div 4 - yoe div 100);
          mp = (5 * doy + 2) div 153;
          d = doy - (153 * mp + 2) div 5 + 1;
          m = (if mp < 10 then mp + 3 else mp - 9);
          y = yoe + era * 400 + (if m \<le> 2 then 1 else 0)
      in (y, m, d))"

definition utc :: "int \<Rightarrow> int \<Rightarrow> int \<Rightarrow> int \<Rightarrow> int \<Rightarrow> int \<Rightarrow> real" where
  "utc y m d hh mm ss = of_int (((days_from_civil y m d * 24 + hh) * 60 + mm) * 60 + ss)"

subsection \<open>Cron expressions\<close>

text \<open>
  Modelled from the spec: the scheduler "parses the expression; rejects malformed
  expressions; computes the first occurrence strictly after now". The spec names no
  grammar; this is the five-field expression of crontab (minute, hour, day of month,
  month, day of week with 0 for Sunday), each field a comma-separated list of \<open>*\<close>,
  \<open>n\<close>, \<open>n-m\<close>, \<open>*/s\<close> or \<open>n-m/s\<close>, evaluated in UTC. A day matches on both day fields
  when one of them is \<open>*\<close>, and on either of them when both are restricted.
\<close>

fun split_on :: "code_unit \<Rightarrow> jsstring \<Rightarrow> jsstring list" where
  "split_on sep [] = [[]]"
| "split_on sep (c # cs) =
     (if c = sep then [] # split_on sep cs
      else (case split_on sep cs of [] \<Rightarrow> [[c]] | p # ps \<Rightarrow> (c # p) # ps))"

fun read_decimal :: "nat \<Rightarrow> jsstring \<Rightarrow> nat option" where
  "read_decimal acc [] = Some acc"
| "read_decimal acc (c # cs) =
     (if 48 \<le> unat c \<and> unat c \<le> 57 then read_decimal (10 * acc + (unat c - 48)) cs else None)"

definition read_number :: "jsstring \<Rightarrow> int option" where
  "read_number s = (if s = [] then None else map_option int (read_decimal 0 s))"

record cron_field =
  any :: bool
  allowed :: "int list"

text \<open>Modelled from the spec: the values \<open>a, a + s, ...\<close> up to \<open>b\<close> of a stepped range.\<close>

definition stepped :: "int \<Rightarrow> int \<Rightarrow> int \<Rightarrow> int list" where
  "stepped a b s = filter (\<lambda>x. (x - a) mod s = 0) [a .. b]"

definition read_range :: "int \<Rightarrow> int \<Rightarrow> jsstring \<Rightarrow> (int \<times> int) option" where
  "read_range lo hi s =
     (if s = js ''*'' then Some (lo, hi)
      else case split_on 45 s of
        [a, b] \<Rightarrow>
          (case (read_number a, read_number b) of
             (Some x, Some y) \<Rightarrow> if lo \<le> x \<and> x \<le> y \<and> y \<le> hi then Some (x, y) else None
           | _ \<Rightarrow> None)
      | _ \<Rightarrow> None)"

definition read_item :: "int \<Rightarrow> int \<Rightarrow> jsstring \<Rightarrow> int list option" where
  "read_item lo hi s =
     (case split_on 47 s of
        [b] \<Rightarrow>
          (case read_number b of
             Some x \<Rightarrow> if lo \<le> x \<and> x \<le> hi then Some [x] else None
           | None \<Rightarrow> map_option (\<lambda>(x, y). stepped x y 1) (read_range lo hi b))
      | [b, st] \<Rightarrow>
          (case (read_range lo hi b, read_number st) of
             (Some (x, y), Some n) \<Rightarrow> if 0 < n then Some (stepped x y n) else None
           | _ \<Rightarrow> None)
      | _ \<Rightarrow> None)"

fun read_items :: "int \<Rightarrow> int \<Rightarrow> jsstring list \<Rightarrow> int list option" where
  "read_items lo hi [] = Some []"
| "read_items lo hi (s # ss) =
     (case (read_item lo hi s, read_items lo hi ss) of
        (Some xs, Some ys) \<Rightarrow> Some (xs @ ys)
      | _ \<Rightarrow> None)"

definition read_field :: "int \<Rightarrow> int \<Rightarrow> jsstring \<Rightarrow> cron_field option" where
  "read_field lo hi s =
     map_option (\<lambda>xs. \<lparr> any = (s = js ''*''), allowed = xs \<rparr>) (read_items lo hi (split_on 44 s))"

record cron_expr =
  cron_minute :: cron_field
  cron_hour :: cron_field
  cron_day :: cron_field
  cron_month :: cron_field
  cron_weekday :: cron_field

definition parse_cron :: "jsstring \<Rightarrow> cron_expr option" where
  "parse_cron s =
     (case filter (\<lambda>f. f \<noteq> []) (split_on 32 s) of
        [mi, ho, da, mo, wd] \<Rightarrow>
          (case (read_field 0 59 mi, read_field 0 23 ho, read_field 1 31 da,
                 read_field 1 12 mo, read_field 0 6 wd) of
             (Some a, Some b, Some c, Some d, Some e) \<Rightarrow>
               Some \<lparr> cron_minute = a, cron_hour = b, cron_day = c, cron_month = d,
                      cron_weekday = e \<rparr>
           | _ \<Rightarrow> None)
      | _ \<Rightarrow> None)"

definition field_has :: "cron_field \<Rightarrow> int \<Rightarrow> bool" where
  "field_has f x = (any f \<or> x \<in> set (allowed f))"

text \<open>
  Modelled from the spec: whether the minute number \<open>k\<close> (minutes since the epoch) is an
  occurrence of the expression.
\<close>

definition cron_matches :: "cron_expr \<Rightarrow> int \<Rightarrow> bool" where
  "cron_matches c k =
     (let day = k div 1440;
          (y, m, d) = civil_from_days day;
          wd = (day + 4) mod 7
      in field_has (cron_minute c) (k mod 60)
         \<and> field_has (cron_hour c) (k div 60 mod 24)
         \<and> field_has (cron_month c) m
         \<and> (if any (cron_day c) \<or> any (cron_weekday c)
            then field_has (cron_day c) d \<and> field_has (cron_weekday c) wd
            else field_has (cron_day c) d \<or> field_has (cron_weekday c) wd))"

text \<open>
  Modelled from the spec: "computes the first occurrence strictly after now".
  \<open>find_minute\<close> is the first occurrence among the \<open>n\<close> minutes from minute \<open>k\<close> on; the
  search starts at the first whole minute after now and looks five years ahead. An
  expression with no occurrence in that time is rejected like a malformed one.
\<close>

fun find_minute :: "cron_expr \<Rightarrow> int \<Rightarrow> nat \<Rightarrow> int option" where
  "find_minute c k 0 = None"
| "find_minute c k (Suc n) = (if cron_matches c k then Some k else find_minute c (k + 1) n)"

definition horizon :: nat where
  "horizon = 5 * 366 * 1440"

definition cron_next :: "jsstring \<Rightarrow> real \<Rightarrow> real option" where
  "cron_next s now =
     (case parse_cron s of
        None \<Rightarrow> None
      | Some c \<Rightarrow> map_option (\<lambda>k. of_int (60 * k)) (find_minute c (\<lfloor>now / 60\<rfloor> + 1) horizon))"

subsection \<open>Submission\<close>

text \<open>
  Modelled from the spec: \<open>submit(spec, toolName, payload)\<close> of section 4.3, at the
  instant \<open>now\<close> and over the tasks already persisted. It rejects \<open>no-schedule\<close>, an
  instant in the past, a non-positive delay and a malformed cron expression with
  \<open>InvalidScheduleError\<close>; otherwise it yields the new task, whose identifier comes from
  \<open>new_id\<close>.
\<close>

definition InvalidScheduleError :: "jsstring \<Rightarrow> exn" where
  "InvalidScheduleError msg = Exn (js ''InvalidScheduleError'') msg"

definition new_task :: "(ScheduledTask list \<Rightarrow> jsstring) \<Rightarrow> ScheduleSpec \<Rightarrow> jsstring \<Rightarrow> val \<Rightarrow> real
    \<Rightarrow> ScheduledTask list \<Rightarrow> ScheduledTask" where
  "new_task new_id spec toolName payload fire ts =
     \<lparr> task_id = new_id ts, task_spec = spec, task_target = toolName, task_payload = payload,
       next_fire = fire, task_cron = (case spec of Cron c \<Rightarrow> Some c | _ \<Rightarrow> None) \<rparr>"

definition submit :: "real \<Rightarrow> (ScheduledTask list \<Rightarrow> jsstring) \<Rightarrow> ScheduleSpec \<Rightarrow> jsstring \<Rightarrow> val
    \<Rightarrow> ScheduledTask list \<Rightarrow> ScheduledTask outcome" where
  "submit now new_id spec toolName payload ts =
     (case spec of
        NoSchedule \<Rightarrow> Thrown (InvalidScheduleError (js ''no schedule given''))
      | Scheduled fire \<Rightarrow>
          if fire < now then Thrown (InvalidScheduleError (js ''the instant is in the past''))
          else Returned (new_task new_id spec toolName payload fire ts)
      | Delayed d \<Rightarrow>
          if d \<le> 0 then Thrown (InvalidScheduleError (js ''the delay is not positive''))
          else Returned (new_task new_id spec toolName payload (now + d) ts)
      | Cron c \<Rightarrow>
          (case cron_next c now of
             None \<Rightarrow> Thrown (InvalidScheduleError (js ''the cron expression is malformed''))
           | Some fire \<Rightarrow> Returned (new_task new_id spec toolName payload fire ts)))"

text \<open>
  Modelled from the spec: the agent whose \<open>schedule(when, callback, payload)\<close> is that
  submission. The call carries no tag: a \<open>Date\<close> is an absolute instant (its time value
  is in milliseconds), a number a delay, a string a cron expression, and anything else
  no schedule. Persisting a task is an I/O boundary (section 5), so the method is
  asynchronous: the call returns a promise, fulfilled with the new task or rejected with
  the error of the submission.
\<close>

definition spec_of_when :: "val \<Rightarrow> ScheduleSpec" where
  "spec_of_when when =
     (case when of
        VDate ms \<Rightarrow> Scheduled (ms / 1000)
      | VNum (Finite d) \<Rightarrow> Delayed d
      | VNum NegZero \<Rightarrow> Delayed 0
      | VStr c \<Rightarrow> Cron c
      | _ \<Rightarrow> NoSchedule)"

definition settled :: "'a outcome \<Rightarrow> 'a promise" where
  "settled r = (case r of Returned x \<Rightarrow> Fulfilled x | Thrown e \<Rightarrow> Rejected e)"

definition scheduler_agent :: "Env \<Rightarrow> real \<Rightarrow> (ScheduledTask list \<Rightarrow> jsstring) \<Rightarrow> agent" where
  "scheduler_agent e now new_id =
     \<lparr> env = e,
       schedule_method = (\<lambda>when callback payload ts.
          Returned (settled (submit now new_id (spec_of_when when) callback payload ts))) \<rparr>"

section \<open>The Confirmation Gate\<close>

text \<open>
  Modelled from the spec: \<open>dispatch(toolName, rawArguments, callId)\<close> of section 4.2 (the
  code that routes a tool call is not among the sources), over a registry of tools. It
  looks the tool up, validates the raw arguments against the tool's schema, and then
  either runs the executor, catching its failure as an \<open>ExecutionError\<close>, or records a
  \<open>PendingConfirmation\<close> (call identifier, tool name, validated arguments, creation
  time and originating message, the last two as the gate has them). The result has the
  three shapes of section 6; the message of a \<open>ValidationError\<close> lists the issues.
\<close>

record PendingConfirmation =
  pending_call :: jsstring
  pending_tool :: jsstring
  pending_arguments :: val
  pending_created :: real
  pending_origin :: jsstring

datatype error_kind = UnknownToolError | ValidationError | ExecutionError

datatype dispatch_result = Executed val | Pending | Failed error_kind jsstring

record gate =
  pending :: "PendingConfirmation list"
  clock :: real
  origin :: jsstring

definition issue_name :: "issue_code \<Rightarrow> jsstring" where
  "issue_name c =
     (case c of invalid_type \<Rightarrow> js ''invalid_type'' | too_small \<Rightarrow> js ''too_small''
      | too_big \<Rightarrow> js ''too_big'' | invalid_literal \<Rightarrow> js ''invalid_literal''
      | invalid_union \<Rightarrow> js ''invalid_union'' | invalid_date \<Rightarrow> js ''invalid_date'')"

definition issue_text :: "issue \<Rightarrow> jsstring" where
  "issue_text i = (case i of Issue c path \<Rightarrow> issue_name c @ js '' at '' @ join_with (js ''.'') path)"

definition violation :: "issue list \<Rightarrow> jsstring" where
  "violation issues = join_with (js ''; '') (map issue_text issues)"

definition dispatch :: "(jsstring \<times> tool) list \<Rightarrow> host \<Rightarrow> jsstring \<Rightarrow> val \<Rightarrow> jsstring
    \<Rightarrow> gate \<times> world \<Rightarrow> dispatch_result \<times> gate \<times> world" where
  "dispatch registry h toolName rawArguments callId st =
     (case st of (g, w) \<Rightarrow>
        (case map_of registry toolName of
           None \<Rightarrow> (Failed UnknownToolError (js ''unknown tool '' @ toolName), g, w)
         | Some t \<Rightarrow>
             (case parameters t rawArguments of
                Inl issues \<Rightarrow> (Failed ValidationError (violation issues), g, w)
              | Inr args \<Rightarrow>
                  (case execute t of
                     Some run \<Rightarrow>
                       (case run h args w of
                          (Returned result, w') \<Rightarrow> (Executed result, g, w')
                        | (Thrown e, w') \<Rightarrow> (Failed ExecutionError (exn_toString e), g, w'))
                   | None \<Rightarrow>
                       (Pending,
                        g\<lparr>pending := pending g
                             @ [\<lparr> pending_call = callId, pending_tool = toolName,
                                  pending_arguments = args, pending_created = clock g,
                                  pending_origin = origin g \<rparr>]\<rparr>,
                        w)))))"

text \<open>
  Modelled from the spec: \<open>requiresConfirmation(name)\<close> of section 4.1, true when the
  tool has no executor.
\<close>

definition requiresConfirmation :: "(jsstring \<times> tool) list \<Rightarrow> jsstring \<Rightarrow> bool" where
  "requiresConfirmation registry name =
     (case map_of registry name of Some t \<Rightarrow> execute t = None | None \<Rightarrow> False)"

section \<open>Example inputs\<close>

text \<open>
  A runtime for the worked examples: it reads and prints whole numbers in decimal,
  computes exactly on finite numbers, writes JSON text (a string between double quotes
  with its double quotes and backslashes escaped, an object with its properties that are
  not \<open>undefined\<close>), and makes headers as the Fetch standard says: a value is stripped of
  the tabs, spaces and line ends around it and must then hold no NUL, no line end and
  no code unit above 255. What it does elsewhere plays no part in the examples.
\<close>

fun decimal :: "nat \<Rightarrow> jsstring" where
  "decimal n = (if n < 10 then [of_nat (48 + n)] else decimal (n div 10) @ [of_nat (48 + n mod 10)])"

definition example_parseFloat :: "jsstring \<Rightarrow> number" where
  "example_parseFloat s =
     (if s = [] then NaN
      else case read_decimal 0 s of Some n \<Rightarrow> Finite (real n) | None \<Rightarrow> NaN)"

definition example_number_toString :: "number \<Rightarrow> jsstring" where
  "example_number_toString n =
     (case n of
        Finite x \<Rightarrow> (if x < 0 then js ''-'' @ decimal (nat \<lfloor>- x\<rfloor>) else decimal (nat \<lfloor>x\<rfloor>))
      | NegZero \<Rightarrow> js ''0'' | NaN \<Rightarrow> js ''NaN''
      | PosInf \<Rightarrow> js ''Infinity'' | NegInf \<Rightarrow> js ''-Infinity'')"

definition exact :: "(real \<Rightarrow> real \<Rightarrow> real) \<Rightarrow> number \<Rightarrow> number \<Rightarrow> number" where
  "exact f a b = (case (a, b) of (Finite x, Finite y) \<Rightarrow> Finite (f x y) | _ \<Rightarrow> NaN)"

definition json_quote :: "jsstring \<Rightarrow> jsstring" where
  "json_quote s = [34] @ concat (map (\<lambda>c. if c = 34 \<or> c = 92 then [92, c] else [c]) s) @ [34]"

fun example_JSON_stringify :: "val \<Rightarrow> jsstring" where
  "example_JSON_stringify VUndefined = js ''null''"
| "example_JSON_stringify VNull = js ''null''"
| "example_JSON_stringify (VBool b) = (if b then js ''true'' else js ''false'')"
| "example_JSON_stringify (VNum n) =
     (case n of Finite x \<Rightarrow> example_number_toString n | NegZero \<Rightarrow> js ''0'' | _ \<Rightarrow> js ''null'')"
| "example_JSON_stringify (VStr s) = json_quote s"
| "example_JSON_stringify (VDate d) = json_quote (example_number_toString (Finite d))"
| "example_JSON_stringify (VArr xs) =
     js ''['' @ join_with (js '','') (map example_JSON_stringify xs) @ js '']''"
| "example_JSON_stringify (VObj fs) =
     js ''{'' @ join_with (js '','')
        (map (\<lambda>kv. json_quote (fst kv) @ js '':'' @ example_JSON_stringify (snd kv))
           (filter (\<lambda>kv. snd kv \<noteq> VUndefined) fs)) @ js ''}''"

definition http_strip :: "jsstring \<Rightarrow> jsstring" where
  "http_strip s =
     rev (dropWhile (\<lambda>c. c \<in> {9, 10, 13, 32}) (rev (dropWhile (\<lambda>c. c \<in> {9, 10, 13, 32}) s)))"

definition header_value :: "val \<Rightarrow> jsstring option" where
  "header_value v =
     (case v of
        VStr s \<Rightarrow>
          (let x = http_strip s in
           if list_all (\<lambda>c. c \<noteq> 0 \<and> c \<noteq> 10 \<and> c \<noteq> 13 \<and> c \<le> 255) x then Some x else None)
      | _ \<Rightarrow> None)"

fun example_headers :: "(jsstring \<times> val) list \<Rightarrow> (jsstring \<times> val) list option" where
  "example_headers [] = Some []"
| "example_headers ((k, v) # fs) =
     (case (header_value v, example_headers fs) of
        (Some x, Some hs) \<Rightarrow> Some ((k, VStr x) # hs)
      | _ \<Rightarrow> None)"

definition example_new_Headers :: "val \<Rightarrow> val outcome" where
  "example_new_Headers init =
     (case init of
        VObj fs \<Rightarrow>
          (case example_headers fs of
             Some hs \<Rightarrow> Returned (VObj hs)
           | None \<Rightarrow> Thrown (TypeError (js ''Invalid header value'')))
      | _ \<Rightarrow> Returned (VObj []))"

definition example_runtime :: js_runtime where
  "example_runtime =
     \<lparr> rt_parseFloat = example_parseFloat,
       rt_add = exact (+),
       rt_sub = exact (-),
       rt_mul = exact (*),
       rt_div = exact (/),
       rt_number_toString = example_number_toString,
       rt_date_toString = (\<lambda>d. example_number_toString (Finite d)),
       rt_JSON_stringify = example_JSON_stringify,
       rt_JSON_stringify_pretty = example_JSON_stringify,
       rt_JSON_parse = (\<lambda>s. Thrown (Exn (js ''SyntaxError'') (js ''Unexpected token''))),
       rt_encodeURIComponent = (\<lambda>v. case v of VStr s \<Rightarrow> Returned s
                                  | _ \<Rightarrow> Returned (js ''undefined'')),
       rt_atob = (\<lambda>v. case v of VStr s \<Rightarrow> Returned s
                   | _ \<Rightarrow> Thrown (Exn (js ''InvalidCharacterError'') [])),
       rt_new_Headers = example_new_Headers,
       rt_escape_inner_quotes = (\<lambda>s. s),
       rt_weather_url = (\<lambda>v. Returned (js ''https://api.open-meteo.com/v1/forecast'')),
       rt_weather_info = (\<lambda>l v. Returned (js ''Weather'')),
       rt_pokemon_url = (\<lambda>v. Returned (js ''https://pokeapi.co/api/v2/pokemon/1'')),
       rt_pokemon_info = (\<lambda>v. Returned (js ''Pokemon'')),
       rt_countries_info = (\<lambda>v. Returned (js ''[]'')) \<rparr>"

text \<open>The address \<open>/calc?op=...&a=...&b=...\<close> of a request to the calculator.\<close>

definition calc_url :: "string \<Rightarrow> string \<Rightarrow> string \<Rightarrow> URL" where
  "calc_url opname x y =
     \<lparr> pathname = js ''/calc'',
       searchParams = [(js ''op'', js opname), (js ''a'', js x), (js ''b'', js y)] \<rparr>"

text \<open>
  A host with no agent in the context: the API token is set, and every request gets the
  reply 200 "{}".
\<close>

definition example_host :: host where
  "example_host =
     \<lparr> runtime = example_runtime,
       global_fetch = (\<lambda>log url init.
          Returned \<lparr> body = js ''{}'', status = 200, statusText = js ''OK'', headers = [] \<rparr>),
       process_env = (\<lambda>name. if name = js ''CLOUDFLARE_API_TOKEN'' then Some (js ''token'') else None),
       fresh_filename = (\<lambda>log. js ''1704103200000-k3x9ab.jpg''),
       local_time_info = (\<lambda>log v. Returned (js ''Local Time'')),
       agentContext_getStore = None \<rparr>"

definition empty_world :: world where
  "empty_world = \<lparr> effects = [], tasks = [] \<rparr>"

text \<open>A rule that blocks, with the given expression.\<close>

definition example_rule :: "string \<Rightarrow> (jsstring \<times> val) list" where
  "example_rule e =
     [(js ''action'', VStr (js ''block'')),
      (js ''description'', VStr (js ''low bot score'')),
      (js ''expression'', VStr (js e))]"

text \<open>
  The rule given wrapped, and given as JSON text to a runtime whose \<open>JSON.parse\<close> reads
  that text; and a host whose API token has a line end in it.
\<close>

definition wrapped_rule :: "string \<Rightarrow> val" where
  "wrapped_rule e = VObj [(js ''type'', VStr (js ''object'')), (js ''value'', VObj (example_rule e))]"

definition rule_text :: jsstring where
  \<open>rule_text =
     js ''{"action":"block","description":"low bot score","expression":"cf.waf.score lt 20"}''\<close>

definition reading_host :: host where
  "reading_host =
     example_host\<lparr>runtime := example_runtime\<lparr>rt_JSON_parse := (\<lambda>s.
        if s = rule_text then Returned (VObj (example_rule ''cf.waf.score lt 20''))
        else Thrown (Exn (js ''SyntaxError'') (js ''Unexpected token'')))\<rparr>\<rparr>"

definition broken_token_host :: host where
  "broken_token_host =
     example_host\<lparr>process_env := (\<lambda>name.
        if name = js ''CLOUDFLARE_API_TOKEN'' then Some (js ''to'' @ [10] @ js ''ken'') else None)\<rparr>"









definition schedule_args :: "(jsstring \<times> val) list \<Rightarrow> val" where
  "schedule_args when =
     VObj [(js ''when'', VObj when), (js ''description'', VStr (js ''send the report''))]"

text \<open>The expression "0 9 * * *" as parsed: every day at 09:00.\<close>

definition daily_nine :: cron_expr where
  "daily_nine = \<lparr> cron_minute = \<lparr> any = False, allowed = [0] \<rparr>,
                   cron_hour = \<lparr> any = False, allowed = [9] \<rparr>,
                   cron_day = \<lparr> any = True, allowed = [1 .. 31] \<rparr>,
                   cron_month = \<lparr> any = True, allowed = [1 .. 12] \<rparr>,
                   cron_weekday = \<lparr> any = True, allowed = [0 .. 6] \<rparr> \<rparr>"

text \<open>
  A date constructor that reads a number of milliseconds, a gate with nothing pending,
  and the submission of no schedule.
\<close>

definition example_new_Date :: "val \<Rightarrow> real option" where
  "example_new_Date v = (case v of VNum (Finite ms) \<Rightarrow> Some ms | _ \<Rightarrow> None)"

definition example_gate :: gate where
  "example_gate = \<lparr> pending = [], clock = utc 2024 1 1 10 0 0, origin = js ''message-1'' \<rparr>"


section \<open>Properties of the calculator worker\<close>

lemma js_op_distinct:
  "js ''div'' \<noteq> js ''add''" "js ''div'' \<noteq> js ''sub''" "js ''div'' \<noteq> js ''mul''"
  by (simp_all add: js_def)

text \<open>
  C10. A request to \<open>/calc\<close> with \<open>op = div\<close> whose \<open>a\<close> and \<open>b\<close> parse as numbers: when
  \<open>b === 0\<close> the answer is status 400 with the body "Cannot divide by zero", and it is the
  same whatever the division of the runtime would compute (the division is not
  performed); when \<open>b\<close> is not zero the answer carries \<open>a / b\<close>.
\<close>

theorem worker_div_zero_guard:
  assumes "pathname url = js ''/calc''"
    and "searchParams_get url (js ''op'') = Some (js ''div'')"
    and "a = parseFloat rt (searchParams_get url (js ''a''))"
    and "b = parseFloat rt (searchParams_get url (js ''b''))"
    and "\<not> isNaN a" and "\<not> isNaN b"
  shows "(strict_eq_zero b \<longrightarrow>
            worker_fetch rt url = \<lparr> body = js ''Cannot divide by zero'', status = 400,
                                    statusText = [], headers = [] \<rparr>
          \<and> (\<forall>d. worker_fetch (rt\<lparr>rt_div := d\<rparr>) url = worker_fetch rt url))
       \<and> (\<not> strict_eq_zero b \<longrightarrow> worker_fetch rt url = json_result rt (rt_div rt a b))"
  using assms
  by (simp add: worker_fetch_def Let_def text_response_def parseFloat_def js_op_distinct)

theorem worker_div_zero_guard_witness:
  "worker_fetch example_runtime (calc_url ''div'' ''6'' ''0'')
     = \<lparr> body = js ''Cannot divide by zero'', status = 400, statusText = [], headers = [] \<rparr>
   \<and> worker_fetch example_runtime (calc_url ''div'' ''6'' ''3'') = json_result example_runtime (Finite 2)"
proof -
  have p: "pathname (calc_url ''div'' x y) = js ''/calc''" for x y
    by (simp add: calc_url_def)
  have o: "searchParams_get (calc_url ''div'' x y) (js ''op'') = Some (js ''div'')" for x y
    by (simp add: calc_url_def searchParams_get_def js_def)
  have a: "parseFloat example_runtime (searchParams_get (calc_url ''div'' ''6'' y) (js ''a'')) = Finite 6"
    for y
    by (simp add: calc_url_def searchParams_get_def js_def parseFloat_def example_runtime_def
        example_parseFloat_def)
  have b0: "parseFloat example_runtime (searchParams_get (calc_url ''div'' ''6'' ''0'') (js ''b'')) = Finite 0"
    by (simp add: calc_url_def searchParams_get_def js_def parseFloat_def example_runtime_def
        example_parseFloat_def)
  have b3: "parseFloat example_runtime (searchParams_get (calc_url ''div'' ''6'' ''3'') (js ''b'')) = Finite 3"
    by (simp add: calc_url_def searchParams_get_def js_def parseFloat_def example_runtime_def
        example_parseFloat_def)
  have d: "rt_div example_runtime (Finite 6) (Finite 3) = Finite 2"
    by (simp add: example_runtime_def exact_def)
  from worker_div_zero_guard [OF p o a [symmetric] b0 [symmetric]]
  have "worker_fetch example_runtime (calc_url ''div'' ''6'' ''0'')
     = \<lparr> body = js ''Cannot divide by zero'', status = 400, statusText = [], headers = [] \<rparr>"
    by (simp add: isNaN_def strict_eq_zero_def)
  moreover from worker_div_zero_guard [OF p o a [symmetric] b3 [symmetric]]
  have "worker_fetch example_runtime (calc_url ''div'' ''6'' ''3'') = json_result example_runtime (Finite 2)"
    by (simp add: isNaN_def strict_eq_zero_def d)
  ultimately show ?thesis by simp
qed

section \<open>Properties of addCloudflareCustomRule\<close>

lemma js_paren: "js ''('' = [40]" "js '')'' = [41]"
  by (simp_all add: js_def)

lemma paren_not_white: "\<not> is_white_space 40" "\<not> is_white_space 41"
  by (simp_all add: is_white_space_def)

lemma trim_parenthesized: "trim (40 # x @ [41]) = 40 # x @ [41]"
  by (simp add: trim_def paren_not_white)

lemma startsWith_paren: "startsWith (40 # x) [40]"
  by (simp add: startsWith_def)

lemma endsWith_paren: "endsWith (y @ [41]) [41]"
  by (simp add: endsWith_def)

lemma wrap_expression_wrapped:
  "startsWith (trim (wrap_expression e)) (js ''('') \<and> endsWith (trim (wrap_expression e)) (js '')'')"
proof (cases "startsWith (trim e) (js ''('') \<and> endsWith (trim e) (js '')'')")
  case True
  then show ?thesis by (simp add: wrap_expression_def)
next
  case False
  then have "wrap_expression e = 40 # trim e @ [41]"
    by (auto simp add: wrap_expression_def js_paren)
  then show ?thesis
    using startsWith_paren [of "trim e @ [41]"] endsWith_paren [of "40 # trim e"]
    by (simp add: trim_parenthesized js_paren)
qed

lemma wrap_expression_idem: "wrap_expression (wrap_expression e) = wrap_expression e"
  using wrap_expression_wrapped [of e] by (simp add: wrap_expression_def [of "wrap_expression e"])

lemma obj_set_same: "map_of fs k = Some x \<Longrightarrow> obj_set fs k x = fs"
  by (induction fs) (auto split: if_splits)

lemma map_of_obj_set: "map_of (obj_set fs k x) k = Some x"
  by (induction fs) auto

lemma map_of_obj_set_other: "k' \<noteq> k \<Longrightarrow> map_of (obj_set fs k x) k' = map_of fs k'"
  by (induction fs) auto

lemma keys_obj_set: "map_of fs k = Some y \<Longrightarrow> map fst (obj_set fs k x) = map fst fs"
  by (induction fs) (auto split: if_splits)

lemma has_key_map_of: "map_of fs k = Some x \<Longrightarrow> has_key (VObj fs) k"
  by (auto simp: has_key_def dest: map_of_SomeD intro: rev_image_eqI)

lemma ensure_parenthesized_obj:
  assumes "map_of fs (js ''expression'') = Some (VStr e)"
  shows "ensure_parenthesized (VObj fs)
           = Returned (VObj (obj_set fs (js ''expression'') (VStr (wrap_expression e))))"
  using assms has_key_map_of [OF assms]
  by (simp add: ensure_parenthesized_def falsy_def typeof_object_def member_def set_member_def
      wrap_expression_def Let_def obj_set_same)

lemma parse_rule_given:
  assumes "(given = r \<and> (\<forall>s. r \<noteq> VStr s))
         \<or> (\<exists>s. r = VStr s \<and> rt_JSON_parse rt s = Returned given)
         \<or> (\<exists>s e. r = VStr s \<and> rt_JSON_parse rt s = Thrown e
                \<and> rt_JSON_parse rt (rt_escape_inner_quotes rt s) = Returned given)"
  shows "parse_rule rt r = Inr given"
  using assms by (cases r) (auto simp add: parse_rule_def)

lemma unwrap_rule_carried:
  assumes "(given = VObj fs
            \<and> \<not> (map_of fs (js ''type'') = Some (VStr (js ''object''))
                  \<and> js ''value'' \<in> fst ` set fs))
         \<or> (\<exists>ws. given = VObj ws \<and> map_of ws (js ''type'') = Some (VStr (js ''object''))
                \<and> map_of ws (js ''value'') = Some (VObj fs))"
  shows "unwrap_rule given = VObj fs"
proof -
  from assms consider
      (direct) "given = VObj fs"
        "\<not> (map_of fs (js ''type'') = Some (VStr (js ''object'')) \<and> js ''value'' \<in> fst ` set fs)"
    | (wrapped) ws where "given = VObj ws" "map_of ws (js ''type'') = Some (VStr (js ''object''))"
        "map_of ws (js ''value'') = Some (VObj fs)"
    by blast
  then show ?thesis
  proof cases
    case direct
    then show ?thesis
      by (auto simp add: unwrap_rule_def member_def has_key_def split: option.splits)
  next
    case wrapped
    then show ?thesis
      using has_key_map_of [OF wrapped(2)] has_key_map_of [OF wrapped(3)]
      by (simp add: unwrap_rule_def member_def falsy_def typeof_object_def)
  qed
qed

lemma snd_send_rule:
  "snd (send_rule h hs b w)
     = w\<lparr>effects := effects w @ [Fetch (VStr (rules_url h)) (rules_request hs b)]\<rparr>"
  by (simp add: send_rule_def try_catch_def io_bind_def fetch_def perform_def response_json_def
      io_lift_def io_return_def get_def split: outcome.splits prod.splits)

lemma addCloudflareCustomRule_run:
  assumes "parse_rule (runtime h) (member args (js ''rule'')) = Inr given"
    and "unwrap_rule given = VObj fs"
    and "map_of fs (js ''expression'') = Some (VStr e)"
    and "process_env h (js ''CLOUDFLARE_API_TOKEN'') = Some tok" and "tok \<noteq> []"
  shows "addCloudflareCustomRule_execute h args w
           = (case rt_new_Headers (runtime h) (rules_headers tok) of
                Thrown t \<Rightarrow> (Thrown t, w)
              | Returned hs \<Rightarrow>
                  send_rule h hs
                    (rt_JSON_stringify (runtime h)
                       (VObj (obj_set fs (js ''expression'') (VStr (wrap_expression e))))) w)"
  using assms
  by (simp add: addCloudflareCustomRule_execute_def ensure_parenthesized_obj io_bind_def
      io_lift_def split: outcome.splits)

text \<open>
  C9. The rule argument is an object, or a string that \<open>JSON.parse\<close> reads (at once, or
  after the repair of its quotes); what is given so is the rule, or the rule wrapped as
  \<open>{ type: "object", value: rule }\<close>. When the rule has an expression string \<open>e\<close> and the
  API token is set: if \<open>new Headers\<close> throws, the tool throws that error and sends
  nothing; otherwise exactly one request is sent, a POST whose body is the JSON text of
  the rule with the wrapped expression in the place of \<open>e\<close>, its other properties as
  they were. The wrapped expression is \<open>e\<close> itself when its trimmed text starts with "("
  and ends with ")" (the rule is then unchanged), and otherwise the trimmed text between
  "(" and ")". It starts with "(" and ends with ")" once trimmed, and wrapping it again
  changes nothing, on the text and on the rule.
\<close>

theorem addCloudflareCustomRule_wraps_expression:
  assumes "(given = member args (js ''rule'') \<and> (\<forall>s. member args (js ''rule'') \<noteq> VStr s))
         \<or> (\<exists>s. member args (js ''rule'') = VStr s
                \<and> rt_JSON_parse (runtime h) s = Returned given)
         \<or> (\<exists>s e. member args (js ''rule'') = VStr s \<and> rt_JSON_parse (runtime h) s = Thrown e
                \<and> rt_JSON_parse (runtime h) (rt_escape_inner_quotes (runtime h) s)
                     = Returned given)"
    and "(given = VObj fs
            \<and> \<not> (map_of fs (js ''type'') = Some (VStr (js ''object''))
                  \<and> js ''value'' \<in> fst ` set fs))
         \<or> (\<exists>ws. given = VObj ws \<and> map_of ws (js ''type'') = Some (VStr (js ''object''))
                \<and> map_of ws (js ''value'') = Some (VObj fs))"
    and "map_of fs (js ''expression'') = Some (VStr e)"
    and "process_env h (js ''CLOUDFLARE_API_TOKEN'') = Some tok" and "tok \<noteq> []"
  shows "(case rt_new_Headers (runtime h)
                 (VObj [(js ''Content-Type'', VStr (js ''application/json'')),
                        (js ''Authorization'', VStr (js ''Bearer '' @ tok))]) of
            Thrown t \<Rightarrow> addCloudflareCustomRule_execute h args w = (Thrown t, w)
          | Returned hs \<Rightarrow>
              effects (snd (addCloudflareCustomRule_execute h args w))
                = effects w @
                  [Fetch (VStr (rules_url h))
                     (VObj [(js ''method'', VStr (js ''POST'')),
                            (js ''headers'', hs),
                            (js ''body'',
                               VStr (rt_JSON_stringify (runtime h)
                                  (VObj (obj_set fs (js ''expression'')
                                           (VStr (wrap_expression e)))))),
                            (js ''redirect'', VStr (js ''follow''))])])
       \<and> map_of (obj_set fs (js ''expression'') (VStr (wrap_expression e))) (js ''expression'')
           = Some (VStr (wrap_expression e))
       \<and> (\<forall>k. k \<noteq> js ''expression'' \<longrightarrow>
             map_of (obj_set fs (js ''expression'') (VStr (wrap_expression e))) k = map_of fs k)
       \<and> map fst (obj_set fs (js ''expression'') (VStr (wrap_expression e))) = map fst fs
       \<and> wrap_expression e
           = (if startsWith (trim e) (js ''('') \<and> endsWith (trim e) (js '')'') then e
              else js ''('' @ trim e @ js '')'')
       \<and> (startsWith (trim e) (js ''('') \<and> endsWith (trim e) (js '')'') \<longrightarrow>
             obj_set fs (js ''expression'') (VStr (wrap_expression e)) = fs)
       \<and> startsWith (trim (wrap_expression e)) (js ''('')
       \<and> endsWith (trim (wrap_expression e)) (js '')'')
       \<and> wrap_expression (wrap_expression e) = wrap_expression e
       \<and> ensure_parenthesized (VObj (obj_set fs (js ''expression'') (VStr (wrap_expression e))))
           = Returned (VObj (obj_set fs (js ''expression'') (VStr (wrap_expression e))))"
proof -
  let ?rule = "VObj (obj_set fs (js ''expression'') (VStr (wrap_expression e)))"
  let ?init = "VObj [(js ''Content-Type'', VStr (js ''application/json'')),
                     (js ''Authorization'', VStr (js ''Bearer '' @ tok))]"
  have run: "addCloudflareCustomRule_execute h args w
           = (case rt_new_Headers (runtime h) ?init of
                Thrown t \<Rightarrow> (Thrown t, w)
              | Returned hs \<Rightarrow> send_rule h hs (rt_JSON_stringify (runtime h) ?rule) w)"
    using addCloudflareCustomRule_run [OF parse_rule_given [OF assms(1)]
        unwrap_rule_carried [OF assms(2)] assms(3) assms(4) assms(5), of w]
    by (simp add: rules_headers_def)
  have sent: "case rt_new_Headers (runtime h) ?init of
            Thrown t \<Rightarrow> addCloudflareCustomRule_execute h args w = (Thrown t, w)
          | Returned hs \<Rightarrow>
              effects (snd (addCloudflareCustomRule_execute h args w))
                = effects w @
                  [Fetch (VStr (rules_url h))
                     (VObj [(js ''method'', VStr (js ''POST'')),
                            (js ''headers'', hs),
                            (js ''body'', VStr (rt_JSON_stringify (runtime h) ?rule)),
                            (js ''redirect'', VStr (js ''follow''))])]"
    by (simp add: run snd_send_rule rules_request_def split: outcome.splits)
  have again: "ensure_parenthesized ?rule = Returned ?rule"
    using ensure_parenthesized_obj [OF map_of_obj_set, of fs "wrap_expression e"]
    by (simp add: wrap_expression_idem obj_set_same [OF map_of_obj_set])
  have unfolded: "wrap_expression e
           = (if startsWith (trim e) (js ''('') \<and> endsWith (trim e) (js '')'') then e
              else js ''('' @ trim e @ js '')'')"
    by (simp add: wrap_expression_def Let_def)
  have unchanged: "startsWith (trim e) (js ''('') \<and> endsWith (trim e) (js '')'') \<longrightarrow>
             obj_set fs (js ''expression'') (VStr (wrap_expression e)) = fs"
    using assms(3) by (simp add: unfolded obj_set_same)
  have others: "\<forall>k. k \<noteq> js ''expression'' \<longrightarrow>
             map_of (obj_set fs (js ''expression'') (VStr (wrap_expression e))) k = map_of fs k"
    by (simp add: map_of_obj_set_other)
  show ?thesis
    using sent map_of_obj_set [of fs "js ''expression''" "VStr (wrap_expression e)"] others
      keys_obj_set [OF assms(3), of "VStr (wrap_expression e)"] unfolded unchanged
      wrap_expression_wrapped [of e, THEN conjunct1] wrap_expression_wrapped [of e, THEN conjunct2]
      wrap_expression_idem [of e] again
    by (intro conjI) assumption+
qed

lemma wrap_expression_example:
  "wrap_expression (js ''cf.waf.score lt 20 '') = js ''(cf.waf.score lt 20)''"
  "wrap_expression (js ''(cf.client.bot)'') = js ''(cf.client.bot)''"
  "wrap_expression (js ''cf.waf.score lt 20'') = js ''(cf.waf.score lt 20)''"
  by (simp_all add: wrap_expression_def trim_def startsWith_def endsWith_def is_white_space_def
      js_def)

lemma example_rule_wrapped:
  "obj_set (example_rule a) (js ''expression'') (VStr (js b)) = example_rule b"
  by (simp add: example_rule_def js_def)

lemma example_rule_text:
  \<open>example_JSON_stringify (VObj (example_rule ''(cf.waf.score lt 20)''))
     = js ''{"action":"block","description":"low bot score","expression":"(cf.waf.score lt 20)"}''\<close>
  \<open>example_JSON_stringify (VObj (example_rule ''(cf.client.bot)''))
     = js ''{"action":"block","description":"low bot score","expression":"(cf.client.bot)"}''\<close>
  by (simp_all add: example_rule_def json_quote_def js_def)

lemma example_rule_expression:
  "map_of (example_rule e) (js ''expression'') = Some (VStr (js e))"
  by (simp add: example_rule_def js_def)

lemma example_rule_direct:
  "\<not> (map_of (example_rule e) (js ''type'') = Some (VStr (js ''object''))
       \<and> js ''value'' \<in> fst ` set (example_rule e))"
  by (simp add: example_rule_def js_def)

lemma example_rules_url:
  "rules_url (example_host\<lparr>runtime := rt, process_env := (\<lambda>name.
       if name = js ''CLOUDFLARE_API_TOKEN'' then Some tok else None)\<rparr>)
     = js (''https://api.cloudflare.com/client/v4/zones/a37b5b3eca17274d2ca0cbc97a950636'' @
           ''/rulesets/f252f8e1e67e42db970584d5e67b9c59/rules'')"
  by (simp add: rules_url_def CLOUDFLARE_ZONE_ID_def CLOUDFLARE_RULESET_ID_def env_or_def js_def)

lemma example_headers_made:
  "example_new_Headers (VObj [(js ''Content-Type'', VStr (js ''application/json'')),
                              (js ''Authorization'', VStr (js ''Bearer '' @ js ''token''))])
     = Returned (VObj [(js ''Content-Type'', VStr (js ''application/json'')),
                       (js ''Authorization'', VStr (js ''Bearer token''))])"
  by (simp add: example_new_Headers_def header_value_def http_strip_def js_def)

lemma example_headers_refused:
  "example_new_Headers (VObj [(js ''Content-Type'', VStr (js ''application/json'')),
                              (js ''Authorization'', VStr (js ''Bearer '' @ js ''to'' @ 10 # js ''ken''))])
     = Thrown (TypeError (js ''Invalid header value''))"
  by (simp add: example_new_Headers_def header_value_def http_strip_def js_def)

text \<open>
  The rule given as an object, wrapped, and as JSON text: each time the one request
  carries the rule with its expression between parentheses. With a line end in the API
  token the headers cannot be made: the tool throws and sends nothing.
\<close>

theorem addCloudflareCustomRule_wraps_expression_witness:
  \<open>effects (snd (addCloudflareCustomRule_execute example_host
             (VObj [(js ''rule'', VObj (example_rule ''cf.waf.score lt 20 ''))]) empty_world))
     = [Fetch (VStr (js (''https://api.cloudflare.com/client/v4/zones/a37b5b3eca17274d2ca0cbc97a950636'' @
                         ''/rulesets/f252f8e1e67e42db970584d5e67b9c59/rules'')))
          (VObj [(js ''method'', VStr (js ''POST'')),
                 (js ''headers'', VObj [(js ''Content-Type'', VStr (js ''application/json'')),
                                        (js ''Authorization'', VStr (js ''Bearer token''))]),
                 (js ''body'', VStr (js
   ''{"action":"block","description":"low bot score","expression":"(cf.waf.score lt 20)"}'')),
                 (js ''redirect'', VStr (js ''follow''))])]
   \<and> effects (snd (addCloudflareCustomRule_execute example_host
             (VObj [(js ''rule'', wrapped_rule ''(cf.client.bot)'')]) empty_world))
     = [Fetch (VStr (js (''https://api.cloudflare.com/client/v4/zones/a37b5b3eca17274d2ca0cbc97a950636'' @
                         ''/rulesets/f252f8e1e67e42db970584d5e67b9c59/rules'')))
          (VObj [(js ''method'', VStr (js ''POST'')),
                 (js ''headers'', VObj [(js ''Content-Type'', VStr (js ''application/json'')),
                                        (js ''Authorization'', VStr (js ''Bearer token''))]),
                 (js ''body'', VStr (js
   ''{"action":"block","description":"low bot score","expression":"(cf.client.bot)"}'')),
                 (js ''redirect'', VStr (js ''follow''))])]
   \<and> effects (snd (addCloudflareCustomRule_execute reading_host
             (VObj [(js ''rule'', VStr rule_text)]) empty_world))
     = [Fetch (VStr (js (''https://api.cloudflare.com/client/v4/zones/a37b5b3eca17274d2ca0cbc97a950636'' @
                         ''/rulesets/f252f8e1e67e42db970584d5e67b9c59/rules'')))
          (VObj [(js ''method'', VStr (js ''POST'')),
                 (js ''headers'', VObj [(js ''Content-Type'', VStr (js ''application/json'')),
                                        (js ''Authorization'', VStr (js ''Bearer token''))]),
                 (js ''body'', VStr (js
   ''{"action":"block","description":"low bot score","expression":"(cf.waf.score lt 20)"}'')),
                 (js ''redirect'', VStr (js ''follow''))])]
   \<and> addCloudflareCustomRule_execute broken_token_host
         (VObj [(js ''rule'', VObj (example_rule ''cf.waf.score lt 20 ''))]) empty_world
     = (Thrown (TypeError (js ''Invalid header value'')), empty_world)\<close>
proof -
  let ?url = "js (''https://api.cloudflare.com/client/v4/zones/a37b5b3eca17274d2ca0cbc97a950636'' @
                  ''/rulesets/f252f8e1e67e42db970584d5e67b9c59/rules'')"
  have host: "example_host = example_host\<lparr>runtime := example_runtime, process_env := (\<lambda>name.
       if name = js ''CLOUDFLARE_API_TOKEN'' then Some (js ''token'') else None)\<rparr>"
    by (simp add: example_host_def)
  have reading: "reading_host = example_host\<lparr>runtime := runtime reading_host, process_env := (\<lambda>name.
       if name = js ''CLOUDFLARE_API_TOKEN'' then Some (js ''token'') else None)\<rparr>"
    by (simp add: reading_host_def example_host_def)
  have broken: "broken_token_host = example_host\<lparr>runtime := example_runtime, process_env := (\<lambda>name.
       if name = js ''CLOUDFLARE_API_TOKEN'' then Some (js ''to'' @ [10] @ js ''ken'') else None)\<rparr>"
    by (simp add: broken_token_host_def example_host_def)
  have url: "rules_url example_host = ?url" "rules_url reading_host = ?url"
    using example_rules_url [where rt = example_runtime and tok = "js ''token''"]
      example_rules_url [where rt = "runtime reading_host" and tok = "js ''token''"] host reading
    by simp_all
  have rt: "runtime example_host = example_runtime" "runtime broken_token_host = example_runtime"
    "rt_new_Headers example_runtime = example_new_Headers"
    "rt_JSON_stringify example_runtime = example_JSON_stringify"
    "rt_new_Headers (runtime reading_host) = example_new_Headers"
    "rt_JSON_stringify (runtime reading_host) = example_JSON_stringify"
    by (simp_all add: example_host_def broken_token_host_def reading_host_def example_runtime_def)
  have tok: "process_env example_host (js ''CLOUDFLARE_API_TOKEN'') = Some (js ''token'')"
    "process_env reading_host (js ''CLOUDFLARE_API_TOKEN'') = Some (js ''token'')"
    "process_env broken_token_host (js ''CLOUDFLARE_API_TOKEN'') = Some (js ''to'' @ [10] @ js ''ken'')"
    by (simp_all add: example_host_def reading_host_def broken_token_host_def)
  have ne: "js ''token'' \<noteq> []" "js ''to'' @ [10] @ js ''ken'' \<noteq> []"
    by (simp_all add: js_def)
  have parsed: "rt_JSON_parse (runtime reading_host) rule_text
                  = Returned (VObj (example_rule ''cf.waf.score lt 20''))"
    by (simp add: reading_host_def)
  let ?a = "VObj [(js ''rule'', VObj (example_rule ''cf.waf.score lt 20 ''))]"
  let ?b = "VObj [(js ''rule'', wrapped_rule ''(cf.client.bot)'')]"
  let ?c = "VObj [(js ''rule'', VStr rule_text)]"
  have ga: "(VObj (example_rule ''cf.waf.score lt 20 '') = member ?a (js ''rule'')
              \<and> (\<forall>s. member ?a (js ''rule'') \<noteq> VStr s))
         \<or> (\<exists>s. member ?a (js ''rule'') = VStr s
                \<and> rt_JSON_parse (runtime example_host) s
                     = Returned (VObj (example_rule ''cf.waf.score lt 20 '')))
         \<or> (\<exists>s e. member ?a (js ''rule'') = VStr s
                \<and> rt_JSON_parse (runtime example_host) s = Thrown e
                \<and> rt_JSON_parse (runtime example_host)
                      (rt_escape_inner_quotes (runtime example_host) s)
                     = Returned (VObj (example_rule ''cf.waf.score lt 20 '')))"
    by (simp add: member_def)
  have gb: "(wrapped_rule ''(cf.client.bot)'' = member ?b (js ''rule'')
              \<and> (\<forall>s. member ?b (js ''rule'') \<noteq> VStr s))
         \<or> (\<exists>s. member ?b (js ''rule'') = VStr s
                \<and> rt_JSON_parse (runtime example_host) s = Returned (wrapped_rule ''(cf.client.bot)''))
         \<or> (\<exists>s e. member ?b (js ''rule'') = VStr s
                \<and> rt_JSON_parse (runtime example_host) s = Thrown e
                \<and> rt_JSON_parse (runtime example_host)
                      (rt_escape_inner_quotes (runtime example_host) s)
                     = Returned (wrapped_rule ''(cf.client.bot)''))"
    by (simp add: member_def wrapped_rule_def)
  have gc: "(VObj (example_rule ''cf.waf.score lt 20'') = member ?c (js ''rule'')
              \<and> (\<forall>s. member ?c (js ''rule'') \<noteq> VStr s))
         \<or> (\<exists>s. member ?c (js ''rule'') = VStr s
                \<and> rt_JSON_parse (runtime reading_host) s
                     = Returned (VObj (example_rule ''cf.waf.score lt 20'')))
         \<or> (\<exists>s e. member ?c (js ''rule'') = VStr s
                \<and> rt_JSON_parse (runtime reading_host) s = Thrown e
                \<and> rt_JSON_parse (runtime reading_host)
                      (rt_escape_inner_quotes (runtime reading_host) s)
                     = Returned (VObj (example_rule ''cf.waf.score lt 20'')))"
    by (simp add: member_def parsed)
  have direct: "(VObj (example_rule e) = VObj (example_rule e)
            \<and> \<not> (map_of (example_rule e) (js ''type'') = Some (VStr (js ''object''))
                  \<and> js ''value'' \<in> fst ` set (example_rule e)))
         \<or> (\<exists>ws. VObj (example_rule e) = VObj ws
                \<and> map_of ws (js ''type'') = Some (VStr (js ''object''))
                \<and> map_of ws (js ''value'') = Some (VObj (example_rule e)))" for e
    using example_rule_direct [of e] by simp
  have wrapped: "(wrapped_rule e = VObj (example_rule e)
            \<and> \<not> (map_of (example_rule e) (js ''type'') = Some (VStr (js ''object''))
                  \<and> js ''value'' \<in> fst ` set (example_rule e)))
         \<or> (\<exists>ws. wrapped_rule e = VObj ws
                \<and> map_of ws (js ''type'') = Some (VStr (js ''object''))
                \<and> map_of ws (js ''value'') = Some (VObj (example_rule e)))" for e
    by (simp add: wrapped_rule_def js_def)
  from addCloudflareCustomRule_wraps_expression [OF ga direct example_rule_expression tok(1) ne(1),
      of empty_world]
  have a: "effects (snd (addCloudflareCustomRule_execute example_host ?a empty_world))
     = [Fetch (VStr ?url)
          (VObj [(js ''method'', VStr (js ''POST'')),
                 (js ''headers'', VObj [(js ''Content-Type'', VStr (js ''application/json'')),
                                        (js ''Authorization'', VStr (js ''Bearer token''))]),
                 (js ''body'', VStr (example_JSON_stringify (VObj (example_rule ''(cf.waf.score lt 20)'')))),
                 (js ''redirect'', VStr (js ''follow''))])]"
    by (simp add: rt example_headers_made url wrap_expression_example example_rule_wrapped
        empty_world_def)
  from addCloudflareCustomRule_wraps_expression [OF gb wrapped example_rule_expression tok(1) ne(1),
      of empty_world]
  have b: "effects (snd (addCloudflareCustomRule_execute example_host ?b empty_world))
     = [Fetch (VStr ?url)
          (VObj [(js ''method'', VStr (js ''POST'')),
                 (js ''headers'', VObj [(js ''Content-Type'', VStr (js ''application/json'')),
                                        (js ''Authorization'', VStr (js ''Bearer token''))]),
                 (js ''body'', VStr (example_JSON_stringify (VObj (example_rule ''(cf.client.bot)'')))),
                 (js ''redirect'', VStr (js ''follow''))])]"
    by (simp add: rt example_headers_made url wrap_expression_example example_rule_wrapped
        empty_world_def)
  from addCloudflareCustomRule_wraps_expression [OF gc direct example_rule_expression tok(2) ne(1),
      of empty_world]
  have c: "effects (snd (addCloudflareCustomRule_execute reading_host ?c empty_world))
     = [Fetch (VStr ?url)
          (VObj [(js ''method'', VStr (js ''POST'')),
                 (js ''headers'', VObj [(js ''Content-Type'', VStr (js ''application/json'')),
                                        (js ''Authorization'', VStr (js ''Bearer token''))]),
                 (js ''body'', VStr (example_JSON_stringify (VObj (example_rule ''(cf.waf.score lt 20)'')))),
                 (js ''redirect'', VStr (js ''follow''))])]"
    by (simp add: rt example_headers_made url wrap_expression_example example_rule_wrapped
        empty_world_def)
  have ga': "(VObj (example_rule ''cf.waf.score lt 20 '') = member ?a (js ''rule'')
              \<and> (\<forall>s. member ?a (js ''rule'') \<noteq> VStr s))
         \<or> (\<exists>s. member ?a (js ''rule'') = VStr s
                \<and> rt_JSON_parse (runtime broken_token_host) s
                     = Returned (VObj (example_rule ''cf.waf.score lt 20 '')))
         \<or> (\<exists>s e. member ?a (js ''rule'') = VStr s
                \<and> rt_JSON_parse (runtime broken_token_host) s = Thrown e
                \<and> rt_JSON_parse (runtime broken_token_host)
                      (rt_escape_inner_quotes (runtime broken_token_host) s)
                     = Returned (VObj (example_rule ''cf.waf.score lt 20 '')))"
    by (simp add: member_def)
  from addCloudflareCustomRule_wraps_expression [OF ga' direct example_rule_expression tok(3) ne(2),
      of empty_world]
  have d: "addCloudflareCustomRule_execute broken_token_host ?a empty_world
     = (Thrown (TypeError (js ''Invalid header value'')), empty_world)"
    by (simp add: rt example_headers_refused)
  from a b c d show ?thesis
    by (simp only: example_rule_text)
qed

section \<open>Properties of scheduleTask and of the scheduler\<close>

lemma js_cron: "js ''0 9 * * *'' = [48, 32, 57, 32, 42, 32, 42, 32, 42]"
  by (simp add: js_def)

lemma split_cron: "filter (\<lambda>f. f \<noteq> []) (split_on 32 (js ''0 9 * * *'')) = [[48], [57], [42], [42], [42]]"
  by (simp add: js_cron)

lemma js_star: "js ''*'' = [42]"
  by (simp add: js_def)

lemma read_star: "read_field lo hi [42] = Some \<lparr> any = True, allowed = [lo .. hi] \<rparr>"
  by (simp add: read_field_def read_item_def read_number_def read_range_def js_star stepped_def)

lemma read_zero: "read_field 0 59 [48] = Some \<lparr> any = False, allowed = [0] \<rparr>"
  by (simp add: read_field_def read_item_def read_number_def js_star)

lemma read_nine: "read_field 0 23 [57] = Some \<lparr> any = False, allowed = [9] \<rparr>"
  by (simp add: read_field_def read_item_def read_number_def js_star)

lemma parse_daily_nine: "parse_cron (js ''0 9 * * *'') = Some daily_nine"
  by (simp add: parse_cron_def split_cron read_star read_zero read_nine daily_nine_def)

lemma matches_daily_nine: "cron_matches daily_nine k = (k mod 60 = 0 \<and> k div 60 mod 24 = 9)"
  by (simp add: cron_matches_def daily_nine_def field_has_def Let_def split: prod.splits)

lemma find_minute_first:
  "k \<le> k' \<Longrightarrow> \<forall>j. k \<le> j \<and> j < k' \<longrightarrow> \<not> cron_matches c j \<Longrightarrow> cron_matches c k'
     \<Longrightarrow> nat (k' - k) < n \<Longrightarrow> find_minute c k n = Some k'"
proof (induction n arbitrary: k)
  case 0
  then show ?case by simp
next
  case (Suc n)
  show ?case
  proof (cases "k = k'")
    case True
    with Suc.prems show ?thesis by simp
  next
    case False
    with Suc.prems have lt: "k < k'" by simp
    with Suc.prems have nm: "\<not> cron_matches c k" by simp
    have "find_minute c (k + 1) n = Some k'"
      using Suc.prems lt by (intro Suc.IH) auto
    with nm show ?thesis by simp
  qed
qed

lemma now_val: "utc 2024 1 1 10 0 0 = 1704103200"
  by (simp add: utc_def days_from_civil_def)

lemma next_val: "utc 2024 1 2 9 0 0 = 1704186000"
  by (simp add: utc_def days_from_civil_def)

lemma no_between:
  assumes "28401721 \<le> j" "j < 28403100" "j mod 60 = 0" "j div 60 mod 24 = (9::int)"
  shows False
proof -
  define q where "q = j div 60"
  have j: "j = 60 * q" using assms(3) q_def by auto
  define r where "r = q div 24"
  have q: "q = 24 * r + 9" using assms(4) q_def r_def by (metis mult_div_mod_eq)
  have "j = 1440 * r + 540" using j q by simp
  with assms(1,2) have "19723 < r" "r < 19724" by simp_all
  then show False by simp
qed

lemma find_daily: "find_minute daily_nine 28401721 horizon = Some 28403100"
proof (rule find_minute_first)
  show "(28401721::int) \<le> 28403100" by simp
  show "\<forall>j. 28401721 \<le> j \<and> j < 28403100 \<longrightarrow> \<not> cron_matches daily_nine j"
  proof (intro allI impI notI)
    fix j
    assume range: "28401721 \<le> j \<and> j < 28403100" and "cron_matches daily_nine j"
    then have "j mod 60 = 0" "j div 60 mod 24 = 9"
      unfolding matches_daily_nine by blast+
    with range no_between [of j] show False by blast
  qed
  show "cron_matches daily_nine 28403100" by (simp add: matches_daily_nine)
  show "nat (28403100 - 28401721) < horizon" by (simp add: horizon_def)
qed

lemma cron_next_daily: "cron_next (js ''0 9 * * *'') (utc 2024 1 1 10 0 0) = Some (utc 2024 1 2 9 0 0)"
  by (simp add: cron_next_def parse_daily_nine now_val next_val find_daily)

lemma member_defined: "member v k = VStr s \<Longrightarrow> get v k = Returned (VStr s)"
  by (auto simp add: get_def member_def)

lemma js_types_distinct:
  "js ''scheduled'' \<noteq> js ''no-schedule''" "js ''delayed'' \<noteq> js ''no-schedule''"
  "js ''cron'' \<noteq> js ''no-schedule''" "js ''delayed'' \<noteq> js ''scheduled''"
  "js ''cron'' \<noteq> js ''scheduled''" "js ''cron'' \<noteq> js ''delayed''"
  by (simp_all add: js_def)



lemma scheduleTask_run:
  assumes "agentContext_getStore h = Some ag"
    and "member (member args (js ''when'')) (js ''type'') = VStr ty"
    and "ty \<noteq> js ''no-schedule''"
    and "schedule_input (member args (js ''when'')) (VStr ty) = Returned input"
  shows "scheduleTask_execute h args w
           = (case schedule_method ag input (js ''executeTask'') (member args (js ''description''))
                     (tasks w) of
                Thrown e \<Rightarrow>
                  (Returned (VStr (js ''Error scheduling task: '' @ exn_toString e)),
                   w\<lparr>effects := effects w
                        @ [Schedule input (js ''executeTask'') (member args (js ''description''))]\<rparr>)
              | Returned (Rejected e) \<Rightarrow>
                  (Returned (VStr (scheduled_message (runtime h) (VStr ty) input)),
                   w\<lparr>effects := effects w
                        @ [Schedule input (js ''executeTask'') (member args (js ''description''))]\<rparr>)
              | Returned (Fulfilled t) \<Rightarrow>
                  (Returned (VStr (scheduled_message (runtime h) (VStr ty) input)),
                   w\<lparr>effects := effects w
                        @ [Schedule input (js ''executeTask'') (member args (js ''description''))],
                      tasks := tasks w @ [t]\<rparr>))"
  using assms member_defined [OF assms(2)]
  by (simp add: scheduleTask_execute_def Let_def io_bind_def io_lift_def io_return_def try_catch_def
      agent_schedule_def split: outcome.splits promise.splits)










lemma not_between:
  assumes "utc 2024 1 1 10 0 0 < of_int (60 * k)" "of_int (60 * k) < utc 2024 1 2 9 0 0"
  shows "28401721 \<le> k \<and> k < 28403100"
proof -
  have "(1704103200::real) < of_int (60 * k)" using assms(1) by (simp only: now_val)
  then have a: "1704103200 < 60 * k" by linarith
  have "of_int (60 * k) < (1704186000::real)" using assms(2) by (simp only: next_val)
  then have b: "60 * k < 1704186000" by linarith
  from a b show ?thesis by linarith
qed

text \<open>
  C5. Against the scheduler of the spec: the submission of the cron expression
  "0 9 * * *" at 2024-01-01T10:00:00Z creates a task whose next-fire instant is
  2024-01-02T09:00:00Z. That instant is after now, and no occurrence of the expression
  lies strictly between now and it.
\<close>

theorem cron_daily_nine_next_fire:
  "tasks (snd (scheduleTask_execute
        (h\<lparr>agentContext_getStore := Some (scheduler_agent e (utc 2024 1 1 10 0 0) new_id)\<rparr>)
        (VObj [(js ''when'', VObj [(js ''type'', VStr (js ''cron'')),
                                   (js ''cron'', VStr (js ''0 9 * * *''))]),
               (js ''description'', description)]) w))
      = tasks w @ [new_task new_id (Cron (js ''0 9 * * *'')) (js ''executeTask'') description
                     (utc 2024 1 2 9 0 0) (tasks w)]
   \<and> cron_next (js ''0 9 * * *'') (utc 2024 1 1 10 0 0) = Some (utc 2024 1 2 9 0 0)
   \<and> utc 2024 1 1 10 0 0 < utc 2024 1 2 9 0 0
   \<and> \<not> (\<exists>c k. parse_cron (js ''0 9 * * *'') = Some c \<and> cron_matches c k
              \<and> utc 2024 1 1 10 0 0 < of_int (60 * k) \<and> of_int (60 * k) < utc 2024 1 2 9 0 0)"
proof -
  let ?h = "h\<lparr>agentContext_getStore := Some (scheduler_agent e (utc 2024 1 1 10 0 0) new_id)\<rparr>"
  let ?args = "VObj [(js ''when'', VObj [(js ''type'', VStr (js ''cron'')),
                                   (js ''cron'', VStr (js ''0 9 * * *''))]),
               (js ''description'', description)]"
  have store: "agentContext_getStore ?h = Some (scheduler_agent e (utc 2024 1 1 10 0 0) new_id)"
    by simp
  have wd: "member ?args (js ''when'')
              = VObj [(js ''type'', VStr (js ''cron'')), (js ''cron'', VStr (js ''0 9 * * *''))]"
    "member ?args (js ''description'') = description"
    by (simp_all add: member_def js_def)
  have ty: "member (member ?args (js ''when'')) (js ''type'') = VStr (js ''cron'')"
    by (simp add: wd) (simp add: member_def js_def)
  have input: "schedule_input (member ?args (js ''when'')) (VStr (js ''cron''))
                 = Returned (VStr (js ''0 9 * * *''))"
    by (simp add: wd schedule_input_def js_types_distinct) (simp add: member_def js_def)
  have accepted: "schedule_method (scheduler_agent e (utc 2024 1 1 10 0 0) new_id)
                    (VStr (js ''0 9 * * *'')) cb p ts
                  = Returned (Fulfilled
                       (new_task new_id (Cron (js ''0 9 * * *'')) cb p (utc 2024 1 2 9 0 0) ts))"
    for cb p ts
    by (simp add: scheduler_agent_def submit_def spec_of_when_def cron_next_daily settled_def)
  have first: "tasks (snd (scheduleTask_execute ?h ?args w))
      = tasks w @ [new_task new_id (Cron (js ''0 9 * * *'')) (js ''executeTask'') description
                     (utc 2024 1 2 9 0 0) (tasks w)]"
    using scheduleTask_run [OF store ty js_types_distinct(3) input, of w]
    by (simp add: accepted wd(2))
  have later: "utc 2024 1 1 10 0 0 < utc 2024 1 2 9 0 0"
    by (simp add: now_val next_val)
  have none: "\<not> (\<exists>c k. parse_cron (js ''0 9 * * *'') = Some c \<and> cron_matches c k
              \<and> utc 2024 1 1 10 0 0 < of_int (60 * k) \<and> of_int (60 * k) < utc 2024 1 2 9 0 0)"
  proof
    assume "\<exists>c k. parse_cron (js ''0 9 * * *'') = Some c \<and> cron_matches c k
              \<and> utc 2024 1 1 10 0 0 < of_int (60 * k) \<and> of_int (60 * k) < utc 2024 1 2 9 0 0"
    then obtain k where m: "cron_matches daily_nine k"
      and r: "utc 2024 1 1 10 0 0 < of_int (60 * k)" "of_int (60 * k) < utc 2024 1 2 9 0 0"
      by (auto simp add: parse_daily_nine)
    from m have "k mod 60 = 0" "k div 60 mod 24 = 9"
      unfolding matches_daily_nine by blast+
    with not_between [OF r] no_between [of k] show False by blast
  qed
  from first cron_next_daily later none show ?thesis by blast
qed

section \<open>Properties of the tools and of the Confirmation Gate\<close>

lemma no_agent_text:
  "exn_toString (new_Error (js ''No agent found'')) = js ''Error: No agent found''"
  by (simp add: new_Error_def js_def)

lemma js_append: "js (a @ b) = js a @ js b"
  by (simp add: js_def)

text \<open>
  C6, as amended. With no agent in the context, each of the five tool bodies that read
  it stops at its check, at \<open>throw new Error("No agent found")\<close>, and does nothing else:
  no service is called and nothing is scheduled (the world is unchanged). scheduleTask
  lets that error leave the tool body; searchDocs, generateImage, callDoWorker and
  callgraphqlWorker, whose check is inside their \<open>try\<close>, catch it and return normally,
  with the error as the text of their result.
\<close>

theorem no_agent_no_tool:
  "scheduleTask_execute (h\<lparr>agentContext_getStore := None\<rparr>) args w
      = (Thrown (Exn (js ''Error'') (js ''No agent found'')), w)
   \<and> searchDocs_execute (h\<lparr>agentContext_getStore := None\<rparr>) args w
      = (Returned (VObj [(js ''content'',
           VArr [VObj [(js ''type'', VStr (js ''text'')),
                       (js ''text'', VStr (js (''Failed to search Cloudflare documentation. '' @
                                              ''Error: Error: No agent found'')))]])]), w)
   \<and> generateImage_execute (h\<lparr>agentContext_getStore := None\<rparr>) args w
      = (Returned (VObj [(js ''type'', VStr (js ''text'')),
           (js ''text'', VStr (js ''Failed to generate image. Error: Error: No agent found''))]), w)
   \<and> callDoWorker_execute (h\<lparr>agentContext_getStore := None\<rparr>) args w
      = (Returned (VObj [(js ''content'',
           VArr [VObj [(js ''type'', VStr (js ''text'')),
                       (js ''text'',
                          VStr (js ''Failed to call worker. Error: Error: No agent found''))]])]), w)
   \<and> callgraphqlWorker_execute (h\<lparr>agentContext_getStore := None\<rparr>) args w
      = (Returned (VObj [(js ''content'',
           VArr [VObj [(js ''type'', VStr (js ''text'')),
                       (js ''text'',
                          VStr (js ''Failed to call GraphQL worker. Error: Error: No agent found''))]])]),
         w)"
proof -
  have thrown: "scheduleTask_execute (h\<lparr>agentContext_getStore := None\<rparr>) args w
      = (Thrown (Exn (js ''Error'') (js ''No agent found'')), w)"
    by (simp add: scheduleTask_execute_def Let_def io_throw_def new_Error_def)
  show ?thesis
    unfolding thrown
    by (simp add: searchDocs_execute_def generateImage_execute_def
      callDoWorker_execute_def callgraphqlWorker_execute_def searchDocs_body_def
      generateImage_body_def callDoWorker_body_def callgraphqlWorker_body_def Let_def
      try_catch_def io_throw_def io_return_def no_agent_text js_append [symmetric]
      text_content_def image_result_def)
qed

text \<open>
  C6 as it was stated fails: with no agent in the context searchDocs does not fail. It
  returns a result, the text of a plain \<open>Error\<close>; and the error that scheduleTask throws
  is a plain \<open>Error\<close> too, not a \<open>NoActiveContextError\<close>.
\<close>

theorem searchDocs_without_agent_returns_counterexample:
  "agentContext_getStore example_host = None
   \<and> searchDocs_execute example_host (VObj [(js ''message'', VStr (js ''what is a worker''))])
         empty_world
      = (Returned (VObj [(js ''content'',
           VArr [VObj [(js ''type'', VStr (js ''text'')),
                       (js ''text'', VStr (js (''Failed to search Cloudflare documentation. '' @
                                              ''Error: Error: No agent found'')))]])]),
         empty_world)
   \<and> scheduleTask_execute example_host
         (schedule_args [(js ''type'', VStr (js ''delayed'')),
                         (js ''delayInSeconds'', VNum (Finite 30))]) empty_world
      = (Thrown (Exn (js ''Error'') (js ''No agent found'')), empty_world)
   \<and> js ''Error'' \<noteq> js ''NoActiveContextError''"
  by (simp add: example_host_def searchDocs_execute_def searchDocs_body_def scheduleTask_execute_def
      Let_def try_catch_def io_throw_def io_return_def text_content_def new_Error_def js_def)

lemma tools_have_executors: "map_of (tools nd) name = Some t \<Longrightarrow> execute t \<noteq> None"
  by (auto simp add: tools_def getWeatherInformation_def getLocalTime_def scheduleTask_def
      sendWebhook_def searchDocs_def generateImage_def searchCountry_def searchPokemon_def
      callDoWorker_def callgraphqlWorker_def addCloudflareCustomRule_def split: if_splits)

lemma tools_entries_have_executors: "\<forall>(name, t) \<in> set (tools nd). execute t \<noteq> None"
  by (simp add: tools_def getWeatherInformation_def getLocalTime_def scheduleTask_def
      sendWebhook_def searchDocs_def generateImage_def searchCountry_def searchPokemon_def
      callDoWorker_def callgraphqlWorker_def addCloudflareCustomRule_def)

lemma dispatch_with_executor:
  assumes "map_of registry name = Some t" and "execute t = Some run"
  shows "fst (dispatch registry h name raw cid (g, w)) \<noteq> Pending"
    and "fst (snd (dispatch registry h name raw cid (g, w))) = g"
    and "parameters t raw = Inr args \<Longrightarrow>
           dispatch registry h name raw cid (g, w)
             = (case run h args w of
                  (Returned v, w') \<Rightarrow> (Executed v, g, w')
                | (Thrown e, w') \<Rightarrow> (Failed ExecutionError (exn_toString e), g, w'))"
  using assms
  by (auto simp add: dispatch_def split: sum.splits prod.splits outcome.splits)

lemma dispatch_tools_not_pending:
  "fst (dispatch (tools nd) h name raw cid (g, w)) \<noteq> Pending
   \<and> fst (snd (dispatch (tools nd) h name raw cid (g, w))) = g"
proof (cases "map_of (tools nd) name")
  case None
  then show ?thesis by (simp add: dispatch_def)
next
  case (Some t)
  with tools_have_executors [OF Some] obtain run where "execute t = Some run" by auto
  with Some show ?thesis
    using dispatch_with_executor(1,2) [of "tools nd" name t run] by simp
qed

text \<open>
  C1. Against the Confirmation Gate of the spec: dispatching a registered tool that has
  an executor never answers "pending" and leaves the gate as it was, and on valid
  arguments the answer is what the executor did. The tools export has eleven tools,
  every one with an executor, and the executions are empty: so no dispatch over the
  tools export answers "pending" or adds a pending confirmation.
\<close>

theorem tools_never_wait_for_confirmation:
  "(\<forall>registry name t run h raw cid g w.
       map_of registry name = Some t \<and> execute t = Some run \<longrightarrow>
         fst (dispatch registry h name raw cid (g, w)) \<noteq> Pending
         \<and> fst (snd (dispatch registry h name raw cid (g, w))) = g
         \<and> (\<forall>args. parameters t raw = Inr args \<longrightarrow>
               dispatch registry h name raw cid (g, w)
                 = (case run h args w of
                      (Returned v, w') \<Rightarrow> (Executed v, g, w')
                    | (Thrown e, w') \<Rightarrow> (Failed ExecutionError (exn_toString e), g, w'))))
   \<and> length (tools nd) = 11
   \<and> (\<forall>(name, t) \<in> set (tools nd). execute t \<noteq> None)
   \<and> executions = []
   \<and> (\<forall>h name raw cid g w.
         fst (dispatch (tools nd) h name raw cid (g, w)) \<noteq> Pending
         \<and> pending (fst (snd (dispatch (tools nd) h name raw cid (g, w)))) = pending g)"
proof -
  have "length (tools nd) = 11"
    by (simp add: tools_def)
  moreover have "executions = []"
    by (simp add: executions_def)
  ultimately show ?thesis
    using dispatch_with_executor tools_entries_have_executors [of nd]
      dispatch_tools_not_pending [of nd]
    by (intro conjI allI impI) (simp_all del: split_paired_All)
qed

lemma lookup_sendWebhook: "map_of (tools nd) (js ''sendWebhook'') = Some sendWebhook"
  by (simp add: tools_def js_def)

lemma lookup_generateImage: "map_of (tools nd) (js ''generateImage'') = Some generateImage"
  by (simp add: tools_def js_def)

text \<open>The webhook tool, dispatched: it is executed at once and the gate is as before.\<close>

theorem tools_never_wait_for_confirmation_witness:
  \<open>dispatch (tools example_new_Date) example_host (js ''sendWebhook'')
       (VObj [(js ''message'', VStr (js ''hi''))]) (js ''call-1'') (example_gate, empty_world)
     = (Executed (text_content (VStr (js ''Message successfully sent to the webhook.''))),
        example_gate,
        \<lparr> effects = [Fetch (VStr [])
            (VObj [(js ''method'', VStr (js ''POST'')),
                   (js ''headers'',
                      VObj [(js ''Content-Type'', VStr (js ''application/json; charset=UTF-8''))]),
                   (js ''body'', VStr (js ''{"text":"hi"}''))])],
          tasks = [] \<rparr>)\<close>
proof -
  let ?raw = "VObj [(js ''message'', VStr (js ''hi''))]"
  have e: "execute sendWebhook = Some sendWebhook_execute"
    by (simp add: sendWebhook_def)
  have p: "parameters sendWebhook ?raw = Inr ?raw"
    by (simp add: sendWebhook_def z_object_def z_string_def member_def has_key_def)
  have r: \<open>sendWebhook_execute example_host ?raw empty_world
     = (Returned (text_content (VStr (js ''Message successfully sent to the webhook.''))),
        \<lparr> effects = [Fetch (VStr [])
            (VObj [(js ''method'', VStr (js ''POST'')),
                   (js ''headers'',
                      VObj [(js ''Content-Type'', VStr (js ''application/json; charset=UTF-8''))]),
                   (js ''body'', VStr (js ''{"text":"hi"}''))])],
          tasks = [] \<rparr>)\<close>
    by (simp add: sendWebhook_execute_def sendWebhook_body_def Let_def try_catch_def io_bind_def
        fetch_def perform_def io_return_def env_or_def example_host_def example_runtime_def
        empty_world_def ok_def member_def json_quote_def js_def)
  from tools_never_wait_for_confirmation [of example_new_Date]
  have "dispatch (tools example_new_Date) example_host (js ''sendWebhook'') ?raw (js ''call-1'')
          (example_gate, empty_world)
        = (case sendWebhook_execute example_host ?raw empty_world of
             (Returned v, w') \<Rightarrow> (Executed v, example_gate, w')
           | (Thrown e, w') \<Rightarrow> (Failed ExecutionError (exn_toString e), example_gate, w'))"
    using lookup_sendWebhook [of example_new_Date] e p by blast
  then show ?thesis
    by (simp add: r)
qed

lemma prompt_parameter_string:
  "prompt_parameter (VStr p)
     = (if p = [] then Inl [Issue too_small []]
        else if 2048 < length p then Inl [Issue too_big []] else Inr (VStr p))"
  by (simp add: prompt_parameter_def refine_def z_string_def min_length_def max_length_def)

lemma steps_parameter_number:
  "steps_parameter (VNum n)
     = (if n = NaN then Inl [Issue invalid_type []]
        else if number_less n (Finite 1) then Inl [Issue too_small []]
        else if number_less (Finite 8) n then Inl [Issue too_big []]
        else Inr (VNum n))"
  by (simp add: steps_parameter_def z_default_def z_optional_def refine_def z_number_def
      min_value_def max_value_def)

lemma parse_shape_first:
  "s1 (member v k1) = Inl i1 \<Longrightarrow> \<exists>issues. parse_shape [(k1, s1), (k2, s2)] v = Inl issues"
  by (cases "s2 (member v k2)") simp_all

lemma parse_shape_second:
  "s2 (member v k2) = Inl i2 \<Longrightarrow> \<exists>issues. parse_shape [(k1, s1), (k2, s2)] v = Inl issues"
  by (cases "s1 (member v k1)") simp_all

lemma generateImage_schema_rejects:
  assumes "(\<exists>p. member (VObj fs) (js ''prompt'') = VStr p \<and> (p = [] \<or> 2048 < length p))
         \<or> (\<exists>n. member (VObj fs) (js ''steps'') = VNum n
                  \<and> (number_less n (Finite 1) \<or> number_less (Finite 8) n))"
  shows "\<exists>issues. parameters generateImage (VObj fs) = Inl issues"
proof -
  let ?shape = "[(js ''prompt'', prompt_parameter), (js ''steps'', steps_parameter)]"
  from assms consider
      (prompt) p where "member (VObj fs) (js ''prompt'') = VStr p" "p = [] \<or> 2048 < length p"
    | (steps) n where "member (VObj fs) (js ''steps'') = VNum n"
        "number_less n (Finite 1) \<or> number_less (Finite 8) n"
    by blast
  then have "\<exists>issues. parse_shape ?shape (VObj fs) = Inl issues"
  proof cases
    case prompt
    then have "\<exists>i. prompt_parameter (member (VObj fs) (js ''prompt'')) = Inl i"
      by (auto simp add: prompt_parameter_string)
    then show ?thesis
      using parse_shape_first by blast
  next
    case steps
    then have "\<exists>i. steps_parameter (member (VObj fs) (js ''steps'')) = Inl i"
      by (auto simp add: steps_parameter_number)
    then show ?thesis
      using parse_shape_second by blast
  qed
  then show ?thesis
    by (auto simp add: generateImage_def z_object_def simp del: parse_shape.simps)
qed

lemma dispatch_invalid:
  assumes "map_of registry name = Some t" and "parameters t raw = Inl issues"
  shows "dispatch registry h name raw cid (g, w) = (Failed ValidationError (violation issues), g, w)"
  using assms by (simp add: dispatch_def)

text \<open>
  C8. Against the Confirmation Gate of the spec: when the prompt given to generateImage
  is empty or longer than 2048 code units, or the steps are below 1 or above 8, the
  schema of the tool rejects the arguments and dispatch answers with a
  \<open>ValidationError\<close> that carries the issues, leaving gate and world untouched. The
  answer is the same whatever the executor of the tool is: it is not run.
\<close>

theorem generateImage_invalid_arguments_rejected:
  assumes "(\<exists>p. member (VObj fs) (js ''prompt'') = VStr p \<and> (p = [] \<or> 2048 < length p))
         \<or> (\<exists>n. member (VObj fs) (js ''steps'') = VNum n
                  \<and> (number_less n (Finite 1) \<or> number_less (Finite 8) n))"
  shows "\<exists>issues. parameters generateImage (VObj fs) = Inl issues
           \<and> dispatch (tools nd) h (js ''generateImage'') (VObj fs) cid (g, w)
               = (Failed ValidationError (violation issues), g, w)
           \<and> (\<forall>run. dispatch [(js ''generateImage'', generateImage\<lparr>execute := run\<rparr>)] h
                        (js ''generateImage'') (VObj fs) cid (g, w)
                      = (Failed ValidationError (violation issues), g, w))"
proof -
  from generateImage_schema_rejects [OF assms]
  obtain issues where i: "parameters generateImage (VObj fs) = Inl issues" by blast
  have a: "dispatch (tools nd) h (js ''generateImage'') (VObj fs) cid (g, w)
             = (Failed ValidationError (violation issues), g, w)"
    using dispatch_invalid [OF lookup_generateImage i] .
  have b: "dispatch [(js ''generateImage'', generateImage\<lparr>execute := run\<rparr>)] h
             (js ''generateImage'') (VObj fs) cid (g, w)
           = (Failed ValidationError (violation issues), g, w)" for run
    by (rule dispatch_invalid [where t = "generateImage\<lparr>execute := run\<rparr>"]) (simp_all add: i)
  from i a b show ?thesis by blast
qed

theorem generateImage_invalid_arguments_rejected_witness:
  "dispatch (tools example_new_Date) example_host (js ''generateImage'')
       (VObj [(js ''prompt'', VStr []), (js ''steps'', VNum (Finite 4))]) (js ''call-2'')
       (example_gate, empty_world)
     = (Failed ValidationError (js ''too_small at prompt''), example_gate, empty_world)
   \<and> dispatch (tools example_new_Date) example_host (js ''generateImage'')
       (VObj [(js ''prompt'', VStr (js ''a cat'')), (js ''steps'', VNum (Finite 9))]) (js ''call-3'')
       (example_gate, empty_world)
     = (Failed ValidationError (js ''too_big at steps''), example_gate, empty_world)"
proof -
  let ?a = "[(js ''prompt'', VStr []), (js ''steps'', VNum (Finite 4))]"
  let ?b = "[(js ''prompt'', VStr (js ''a cat'')), (js ''steps'', VNum (Finite 9))]"
  have pa: "parameters generateImage (VObj ?a) = Inl [Issue too_small [js ''prompt'']]"
    by (simp add: generateImage_def z_object_def prompt_parameter_string steps_parameter_number
        member_def has_key_def at_key_def js_def)
  have pb: "parameters generateImage (VObj ?b) = Inl [Issue too_big [js ''steps'']]"
    by (simp add: generateImage_def z_object_def prompt_parameter_string steps_parameter_number
        member_def has_key_def at_key_def js_def)
  have va: "violation [Issue too_small [js ''prompt'']] = js ''too_small at prompt''"
    by (simp add: violation_def issue_text_def issue_name_def js_def)
  have vb: "violation [Issue too_big [js ''steps'']] = js ''too_big at steps''"
    by (simp add: violation_def issue_text_def issue_name_def js_def)
  have ha: "(\<exists>p. member (VObj ?a) (js ''prompt'') = VStr p \<and> (p = [] \<or> 2048 < length p))
         \<or> (\<exists>n. member (VObj ?a) (js ''steps'') = VNum n
                  \<and> (number_less n (Finite 1) \<or> number_less (Finite 8) n))"
    by (simp add: member_def js_def)
  have hb: "(\<exists>p. member (VObj ?b) (js ''prompt'') = VStr p \<and> (p = [] \<or> 2048 < length p))
         \<or> (\<exists>n. member (VObj ?b) (js ''steps'') = VNum n
                  \<and> (number_less n (Finite 1) \<or> number_less (Finite 8) n))"
    by (simp add: member_def js_def)
  from generateImage_invalid_arguments_rejected [OF ha, of example_new_Date example_host
      "js ''call-2''" example_gate empty_world]
  have a: "dispatch (tools example_new_Date) example_host (js ''generateImage'') (VObj ?a)
             (js ''call-2'') (example_gate, empty_world)
           = (Failed ValidationError (js ''too_small at prompt''), example_gate, empty_world)"
    by (auto simp add: pa va)
  from generateImage_invalid_arguments_rejected [OF hb, of example_new_Date example_host
      "js ''call-3''" example_gate empty_world]
  have b: "dispatch (tools example_new_Date) example_host (js ''generateImage'') (VObj ?b)
             (js ''call-3'') (example_gate, empty_world)
           = (Failed ValidationError (js ''too_big at steps''), example_gate, empty_world)"
    by (auto simp add: pb vb)
  from a b show ?thesis by simp
qed

section \<open>Failures of the tools\<close>





subsection \<open>sendWebhook\<close>




subsection \<open>getWeatherInformation and getLocalTime\<close>








subsection \<open>searchDocs and generateImage\<close>







subsection \<open>searchCountry and searchPokemon\<close>









subsection \<open>callDoWorker and callgraphqlWorker\<close>





subsection \<open>scheduleTask and addCloudflareCustomRule\<close>
















end
